theory Spec2Isabelle
  imports Complex_Main "HOL-Library.Sublist" "HOL-Library.Log_Nat"
begin

section \<open>Moving cost estimator: data model\<close>

text \<open>
  The development follows \<^verbatim>\<open>src/main.py\<close> (the script, functions \<^verbatim>\<open>analyze_video\<close> and
  \<^verbatim>\<open>calculate_move_cost\<close>) and \<^verbatim>\<open>src/move.py\<close> (the HTTP service, functions
  \<^verbatim>\<open>analyze_video_file\<close>, \<^verbatim>\<open>calculate_cost\<close> and \<^verbatim>\<open>analyze_video_endpoint\<close>).

  Numbers. The development reads Python's arithmetic in two ways. In the sections on the
  parser, the staffing recommendation and the failures of the pricing step, \<^verbatim>\<open>int\<close> and
  \<^verbatim>\<open>float\<close> values are exact rationals: the constants \<^verbatim>\<open>0.5\<close>, \<^verbatim>\<open>0.20\<close>, \<^verbatim>\<open>0.05\<close>, \<^verbatim>\<open>0.9\<close>,
  \<^verbatim>\<open>1.1\<close> are the fractions they denote, every arithmetic operation is exact, and
  \<^verbatim>\<open>round(x, n)\<close> rounds the exact value to \<open>n\<close> decimals, halves to the even neighbour.
  The properties proved there are about which statement raises, which keys are read and
  which recommendation is priced. The section on binary64 arithmetic has the pricing once
  more with the doubles of Python: every operation rounds to the nearest double, an
  \<^verbatim>\<open>int\<close> too large for a double raises \<^verbatim>\<open>OverflowError\<close>, and the properties about the
  values of the sums are proved there. The order and the grouping of the operations are
  those of the source in both.

  Text. A Python \<^verbatim>\<open>str\<close> is a \<^typ>\<open>string\<close>; a character is a code point below 256.
\<close>

text \<open>
  The exceptions the modelled paths can raise. \<open>ConfigError\<close> and \<open>SchemaError\<close> are the
  typed errors of the specification's taxonomy; no statement of the source raises them.
  \<open>ServiceError\<close> stands for whatever the inference client raises, \<open>HTTPException\<close>
  carries its status code.
\<close>

datatype json =
    JNull
  | JBool bool
  | JNum rat
  | JStr string
  | JArr "json list"
  | JObj "(string \<times> json) list"

datatype error =
    KeyError json
  | TypeError
  | AttributeError
  | IndexError
  | ValueError
  | JSONDecodeError
  | ServiceError
  | OSError
  | ValidationError
  | HTTPException nat
  | ConfigError
  | SchemaError
  | OverflowError

definition ebind :: "error + 'a \<Rightarrow> ('a \<Rightarrow> error + 'b) \<Rightarrow> error + 'b" where
  "ebind m f = (case m of Inl e \<Rightarrow> Inl e | Inr x \<Rightarrow> f x)"

subsection \<open>String operations of Python used by the parser\<close>

text \<open>\<^verbatim>\<open>str.isspace\<close> on one character, for code points below 256.\<close>

definition isspace :: "char \<Rightarrow> bool" where
  "isspace c = (of_char c \<in> {9, 10, 11, 12, 13, 28, 29, 30, 31, 32, 133, 160 :: nat})"

text \<open>\<^verbatim>\<open>s.strip()\<close>: leading and trailing whitespace removed.\<close>

definition strip :: "string \<Rightarrow> string" where
  "strip s = rev (dropWhile isspace (rev (dropWhile isspace s)))"

text \<open>\<^verbatim>\<open>s.startswith(p)\<close>.\<close>

definition startswith :: "string \<Rightarrow> string \<Rightarrow> bool" where
  "startswith s p = prefix p s"

text \<open>
  \<^verbatim>\<open>s.split(sep)\<close> for a non-empty separator: the occurrences of \<open>sep\<close> are found from
  the left and do not overlap. Python raises \<^verbatim>\<open>ValueError\<close> on an empty separator.
\<close>

fun split_on :: "string \<Rightarrow> string \<Rightarrow> string list" where
  "split_on sep [] = [[]]"
| "split_on sep (c # cs) =
     (if sep \<noteq> [] \<and> prefix sep (c # cs)
      then [] # split_on sep (drop (length sep - 1) cs)
      else (case split_on sep cs of
              [] \<Rightarrow> [[c]]
            | w # ws \<Rightarrow> (c # w) # ws))"

definition str_split :: "string \<Rightarrow> string \<Rightarrow> error + string list" where
  "str_split s sep = (if sep = [] then Inl ValueError else Inr (split_on sep s))"

text \<open>\<^verbatim>\<open>xs[i]\<close> for a non-negative index.\<close>

definition list_index :: "'a list \<Rightarrow> nat \<Rightarrow> error + 'a" where
  "list_index xs i = (if i < length xs then Inr (xs ! i) else Inl IndexError)"

subsection \<open>The structured-output parser\<close>

text \<open>
  The cleanup that every call site applies to the text returned by the inference service
  before \<^verbatim>\<open>json.loads\<close> (\<^verbatim>\<open>main.py\<close> lines 117-124 and 205-210, \<^verbatim>\<open>move.py\<close> lines
  171-177, 228-234 and 280-285; the five copies are the same statements):
  \<^verbatim>\<open>
  result_text = response.text.strip()
  if result_text.startswith('```'):
      result_text = result_text.split('```')[1]
      if result_text.startswith('json'):
          result_text = result_text[4:]
      result_text = result_text.strip()
  \<close>
\<close>

definition clean_response :: "string \<Rightarrow> error + string" where
  "clean_response text =
     (let result_text = strip text in
      if startswith result_text ''```''
      then ebind (str_split result_text ''```'') (\<lambda>parts.
           ebind (list_index parts 1) (\<lambda>result_text1.
           let result_text2 =
                 (if startswith result_text1 ''json'' then drop 4 result_text1
                  else result_text1)
           in Inr (strip result_text2)))
      else Inr result_text)"

text \<open>
  \<^verbatim>\<open>json.loads\<close> belongs to Python's library, not to the repository: it is the parameter
  \<open>loads\<close>, a function from the text to the decoded value or the decoder's exception.
\<close>

definition parse_response :: "(string \<Rightarrow> error + 'v) \<Rightarrow> string \<Rightarrow> error + 'v" where
  "parse_response loads text = ebind (clean_response text) loads"

text \<open>The fenced form of a payload: an opening fence line with a language tag, the
  payload, and a closing fence on its own line.\<close>

definition fence :: "string \<Rightarrow> string \<Rightarrow> string" where
  "fence tag payload = ''```'' @ tag @ [CHR 0x0A] @ payload @ [CHR 0x0A] @ ''```''"

section \<open>Stage 2: cost estimation\<close>

subsection \<open>Records\<close>

text \<open>
  The inventory is a Python dictionary read with \<^verbatim>\<open>inventory.get(key, default)\<close>: a key
  may be absent, which is \<open>None\<close> here. The items are passed through and never inspected.
\<close>

record inventory =
  items :: "json list"
  total_volume_cubic_feet :: "rat option"
  needs_special_handling :: "string list option"

record move_parameters =
  distance_km :: rat
  origin_floor :: int
  destination_floor :: int
  has_elevator_origin :: bool
  has_elevator_destination :: bool

record cost_breakdown =
  labor :: rat
  truck :: rat
  fuel :: rat
  materials :: rat
  stairs_fee :: rat
  other :: rat

text \<open>
  The dictionary returned by the cost functions. \<open>movers_needed\<close>, \<open>truck_type\<close> and
  \<open>special_notes\<close> are the values of the staffing recommendation, returned as they are.
\<close>

record cost_estimate =
  total_cost :: rat
  cost_range :: "rat list"
  movers_needed :: json
  truck_type :: json
  estimated_hours :: rat
  breakdown :: cost_breakdown
  special_notes :: json

subsection \<open>Pricing configuration\<close>

text \<open>\<^verbatim>\<open>PRICING_CONFIG\<close> (\<^verbatim>\<open>main.py\<close> lines 139-151, \<^verbatim>\<open>move.py\<close> lines 83-95).\<close>

definition labor_rate_per_hour :: rat where
  "labor_rate_per_hour = 35"

definition truck_rates :: "(string \<times> rat) list" where
  "truck_rates = [(''small'', 75), (''medium'', 120), (''large'', 180)]"

definition fuel_cost_per_km :: rat where
  "fuel_cost_per_km = 1 / 2"

definition stairs_fee_per_floor :: int where
  "stairs_fee_per_floor = 25"

definition packing_material_per_cubic_feet :: rat where
  "packing_material_per_cubic_feet = 1 / 5"

definition base_hours :: rat where
  "base_hours = 4"

definition hour_per_100_cubic_feet :: rat where
  "hour_per_100_cubic_feet = 1 / 2"

subsection \<open>Python operations on decoded values\<close>

text \<open>\<^verbatim>\<open>d[key]\<close>: a missing key raises \<^verbatim>\<open>KeyError\<close>; a value that is not a dictionary
  raises \<^verbatim>\<open>TypeError\<close> on a string subscript.\<close>

fun subscript :: "json \<Rightarrow> string \<Rightarrow> error + json" where
  "subscript (JObj kvs) k =
     (case map_of kvs k of None \<Rightarrow> Inl (KeyError (JStr k)) | Some v \<Rightarrow> Inr v)"
| "subscript _ k = Inl TypeError"

text \<open>\<^verbatim>\<open>d.get(key, default)\<close>; only dictionaries have the method.\<close>

fun get :: "json \<Rightarrow> string \<Rightarrow> json \<Rightarrow> error + json" where
  "get (JObj kvs) k d = (case map_of kvs k of None \<Rightarrow> Inr d | Some v \<Rightarrow> Inr v)"
| "get _ k d = Inl AttributeError"

text \<open>The value of an operand of \<^verbatim>\<open>+\<close> or \<^verbatim>\<open>*\<close> whose other operand is a float: numbers
  and booleans (\<^verbatim>\<open>True\<close> is 1) are accepted, everything else raises \<^verbatim>\<open>TypeError\<close>.\<close>

fun num :: "json \<Rightarrow> error + rat" where
  "num (JNum r) = Inr r"
| "num (JBool b) = Inr (if b then 1 else 0)"
| "num _ = Inl TypeError"

text \<open>\<^verbatim>\<open>PRICING_CONFIG['truck_rates'][truck_type]\<close>: lists and dictionaries are unhashable
  (\<^verbatim>\<open>TypeError\<close>), any other value that is not one of the three keys raises
  \<^verbatim>\<open>KeyError\<close>.\<close>

fun truck_rate :: "json \<Rightarrow> error + rat" where
  "truck_rate (JStr t) =
     (case map_of truck_rates t of None \<Rightarrow> Inl (KeyError (JStr t)) | Some r \<Rightarrow> Inr r)"
| "truck_rate (JArr xs) = Inl TypeError"
| "truck_rate (JObj kvs) = Inl TypeError"
| "truck_rate v = Inl (KeyError v)"

text \<open>\<^verbatim>\<open>round(x, n)\<close> on exact values: to the nearest multiple of \<open>10\<^sup>-\<^sup>n\<close>, a half
  to the even neighbour.\<close>

definition round_half_even :: "rat \<Rightarrow> int" where
  "round_half_even x =
     (let f = \<lfloor>x\<rfloor>; d = x - of_int f in
      if d < 1 / 2 then f
      else if 1 / 2 < d then f + 1
      else if even f then f else f + 1)"

definition py_round :: "rat \<Rightarrow> nat \<Rightarrow> rat" where
  "py_round x n = of_int (round_half_even (x * 10 ^ n)) / 10 ^ n"

subsection \<open>Staffing recommendation\<close>

text \<open>
  The \<^verbatim>\<open>try\<close> block (\<^verbatim>\<open>main.py\<close> lines 198-212, \<^verbatim>\<open>move.py\<close> lines 274-287). The outcome
  of the single request to the inference service is the input \<open>response\<close>: \<open>Inl e\<close>
  when the call, or reading the text of its answer, raises \<open>e\<close>, and \<open>Inr text\<close> when
  it answers \<open>text\<close>.
\<close>

definition inference_attempt ::
  "(string \<Rightarrow> error + json) \<Rightarrow> error + string \<Rightarrow> error + json" where
  "inference_attempt loads response = ebind response (parse_response loads)"

text \<open>The \<^verbatim>\<open>except Exception\<close> block (\<^verbatim>\<open>main.py\<close> lines 214-223, \<^verbatim>\<open>move.py\<close> lines
  289-297).\<close>

definition fallback :: "inventory \<Rightarrow> json" where
  "fallback inventory =
     (let volume = (case total_volume_cubic_feet inventory of None \<Rightarrow> 500 | Some v \<Rightarrow> v)
      in JObj
        [(''recommended_movers'',
            JNum (if volume < 400 then 2 else (if volume < 800 then 3 else 4))),
         (''truck_type'',
            JStr (if volume < 400 then ''small''
                  else (if volume < 900 then ''medium'' else ''large''))),
         (''complexity_hours_add'',
            JNum (of_nat (length (case needs_special_handling inventory of
                                    None \<Rightarrow> [] | Some hs \<Rightarrow> hs)) * (1 / 2))),
         (''special_notes'', JStr [])])"

definition staffing_recommendation ::
  "(string \<Rightarrow> error + json) \<Rightarrow> error + string \<Rightarrow> inventory \<Rightarrow> json" where
  "staffing_recommendation loads response inventory =
     (case inference_attempt loads response of
        Inr ai_estimate \<Rightarrow> ai_estimate
      | Inl e \<Rightarrow> fallback inventory)"

subsection \<open>Pricing\<close>

text \<open>The stairs fee (\<^verbatim>\<open>main.py\<close> lines 245-250, \<^verbatim>\<open>move.py\<close> lines 318-323).\<close>

definition stairs_floors :: "move_parameters \<Rightarrow> int" where
  "stairs_floors m =
     (let s0 = 0;
          s1 = (if \<not> has_elevator_origin m \<and> origin_floor m > 1
                then s0 + (origin_floor m - 1) else s0);
          s2 = (if \<not> has_elevator_destination m \<and> destination_floor m > 1
                then s1 + (destination_floor m - 1) else s1)
      in s2)"

text \<open>
  \<^verbatim>\<open>move.py\<close> lines 299-353, the part of \<^verbatim>\<open>calculate_cost\<close> after the staffing
  recommendation. The statements are evaluated in the order of the source, so the first
  one that raises decides the error.
\<close>

definition pricing_move :: "json \<Rightarrow> inventory \<Rightarrow> move_parameters \<Rightarrow> error + cost_estimate" where
  "pricing_move ai_estimate inventory m =
     (let volume = (case total_volume_cubic_feet inventory of None \<Rightarrow> 500 | Some v \<Rightarrow> v) in
      ebind (subscript ai_estimate ''recommended_movers'') (\<lambda>movers.
      ebind (subscript ai_estimate ''truck_type'') (\<lambda>truck_type'.
      let volume_hours = (volume / 100) * hour_per_100_cubic_feet in
      ebind (get ai_estimate ''complexity_hours_add'' (JNum 0)) (\<lambda>complexity_hours.
      ebind (num complexity_hours) (\<lambda>complexity_hours'.
      let estimated_hours' = py_round (base_hours + volume_hours + complexity_hours') 1 in
      ebind (num movers) (\<lambda>movers'.
      let labor_cost = py_round (movers' * estimated_hours' * labor_rate_per_hour) 2 in
      ebind (truck_rate truck_type') (\<lambda>truck_base.
      let fuel_cost = py_round (distance_km m * fuel_cost_per_km) 2;
          stairs_fee' = of_int (stairs_floors m * stairs_fee_per_floor);
          materials_cost = py_round (volume * packing_material_per_cubic_feet) 2;
          other_fees = py_round ((labor_cost + truck_base + fuel_cost) * (5 / 100)) 2;
          total_cost' =
            py_round (labor_cost + truck_base + fuel_cost + stairs_fee' + materials_cost
                      + other_fees) 2;
          cost_min = py_round (total_cost' * (9 / 10)) 2;
          cost_max = py_round (total_cost' * (11 / 10)) 2
      in
      ebind (get ai_estimate ''special_notes'' (JStr [])) (\<lambda>notes.
      Inr \<lparr>total_cost = total_cost',
           cost_range = [cost_min, cost_max],
           movers_needed = movers,
           truck_type = truck_type',
           estimated_hours = estimated_hours',
           breakdown = \<lparr>labor = labor_cost, truck = truck_base, fuel = fuel_cost,
                        materials = materials_cost, stairs_fee = stairs_fee',
                        other = other_fees\<rparr>,
           special_notes = notes\<rparr>))))))))"

text \<open>
  \<^verbatim>\<open>main.py\<close> lines 225-280, the same part of \<^verbatim>\<open>calculate_move_cost\<close>. It differs from
  \<^verbatim>\<open>move.py\<close> in one place: the truck rate and the fuel are first added up as
  \<^verbatim>\<open>truck_total\<close> (line 242), and the other fees and the total use that sum.
\<close>

definition pricing_main :: "json \<Rightarrow> inventory \<Rightarrow> move_parameters \<Rightarrow> error + cost_estimate" where
  "pricing_main ai_estimate inventory m =
     (let volume = (case total_volume_cubic_feet inventory of None \<Rightarrow> 500 | Some v \<Rightarrow> v) in
      ebind (subscript ai_estimate ''recommended_movers'') (\<lambda>movers.
      ebind (subscript ai_estimate ''truck_type'') (\<lambda>truck_type'.
      let volume_hours = (volume / 100) * hour_per_100_cubic_feet in
      ebind (get ai_estimate ''complexity_hours_add'' (JNum 0)) (\<lambda>complexity_hours.
      ebind (num complexity_hours) (\<lambda>complexity_hours'.
      let estimated_hours' = py_round (base_hours + volume_hours + complexity_hours') 1 in
      ebind (num movers) (\<lambda>movers'.
      let labor_cost = py_round (movers' * estimated_hours' * labor_rate_per_hour) 2 in
      ebind (truck_rate truck_type') (\<lambda>truck_base.
      let fuel_cost = py_round (distance_km m * fuel_cost_per_km) 2;
          truck_total = truck_base + fuel_cost;
          stairs_fee' = of_int (stairs_floors m * stairs_fee_per_floor);
          materials_cost = py_round (volume * packing_material_per_cubic_feet) 2;
          other_fees = py_round ((labor_cost + truck_total) * (5 / 100)) 2;
          total_cost' =
            py_round (labor_cost + truck_total + stairs_fee' + materials_cost + other_fees) 2;
          cost_min = py_round (total_cost' * (9 / 10)) 2;
          cost_max = py_round (total_cost' * (11 / 10)) 2
      in
      ebind (get ai_estimate ''special_notes'' (JStr [])) (\<lambda>notes.
      Inr \<lparr>total_cost = total_cost',
           cost_range = [cost_min, cost_max],
           movers_needed = movers,
           truck_type = truck_type',
           estimated_hours = estimated_hours',
           breakdown = \<lparr>labor = labor_cost, truck = truck_base, fuel = fuel_cost,
                        materials = materials_cost, stairs_fee = stairs_fee',
                        other = other_fees\<rparr>,
           special_notes = notes\<rparr>))))))))"



section \<open>Stage 1: video analysis\<close>

text \<open>
  \<^verbatim>\<open>analyze_video\<close> (\<^verbatim>\<open>main.py\<close> lines 60-131): the request, the cleanup and
  \<^verbatim>\<open>json.loads\<close>; an exception is printed and raised again. As for stage 2, \<open>response\<close>
  is the outcome of the statements up to \<^verbatim>\<open>response.text\<close>.
\<close>

definition analyze_video :: "(string \<Rightarrow> error + json) \<Rightarrow> error + string \<Rightarrow> error + json" where
  "analyze_video loads response = ebind response (parse_response loads)"

text \<open>\<^verbatim>\<open>analyze_video_file\<close> and \<^verbatim>\<open>analyze_youtube_video\<close> (\<^verbatim>\<open>move.py\<close> lines 130-183
  and 215-240): any exception becomes an \<^verbatim>\<open>HTTPException\<close> with status 500.\<close>

definition analyze_video_file ::
  "(string \<Rightarrow> error + json) \<Rightarrow> error + string \<Rightarrow> error + json" where
  "analyze_video_file loads response =
     (case ebind response (parse_response loads) of
        Inl e \<Rightarrow> Inl (HTTPException 500)
      | Inr inventory \<Rightarrow> Inr inventory)"

definition analyze_youtube_video ::
  "(string \<Rightarrow> error + json) \<Rightarrow> error + string \<Rightarrow> error + json" where
  "analyze_youtube_video loads response =
     (case ebind response (parse_response loads) of
        Inl e \<Rightarrow> Inl (HTTPException 500)
      | Inr inventory \<Rightarrow> Inr inventory)"

subsection \<open>The endpoint and its temporary file\<close>

text \<open>
  The file system is the set of paths that exist. What the surroundings decide is an
  input of the model:
  \<^item> \<open>named_temporary_file\<close>: \<^verbatim>\<open>tempfile.NamedTemporaryFile(delete=False, suffix='.mp4')\<close>
    creates a file and gives its path, or raises;
  \<^item> \<open>copyfileobj\<close>: \<^verbatim>\<open>shutil.copyfileobj(video_file.file, temp_file)\<close> completes
    (\<open>None\<close>) or raises;
  \<^item> \<open>service_response\<close>: the answer of the inference service, as before;
  \<^item> \<open>video_analysis_response\<close>: the validation \<^verbatim>\<open>VideoAnalysisResponse(**inventory)\<close>.
\<close>

record surroundings =
  named_temporary_file :: "error + string"
  copyfileobj :: "error option"
  service_response :: "error + string"
  video_analysis_response :: "json \<Rightarrow> error + json"

text \<open>\<^verbatim>\<open>os.unlink(path)\<close>.\<close>

definition os_unlink :: "string \<Rightarrow> string set \<Rightarrow> error + string set" where
  "os_unlink path fs = (if path \<in> fs then Inr (fs - {path}) else Inl OSError)"

text \<open>The truth value of an optional string: \<^verbatim>\<open>None\<close> and the empty string are false.\<close>

fun truthy :: "string option \<Rightarrow> bool" where
  "truthy None = False"
| "truthy (Some s) = (s \<noteq> [])"

text \<open>
  \<^verbatim>\<open>analyze_video_endpoint\<close> (\<^verbatim>\<open>move.py\<close> lines 373-412). The result is the response
  or the exception of the handler, and the file system it leaves. The \<^verbatim>\<open>with\<close> block
  of lines 398-400 closes the temporary file on every exit and, created with
  \<^verbatim>\<open>delete=False\<close>, leaves it in place; the \<^verbatim>\<open>try\<close>/\<^verbatim>\<open>finally\<close> of lines 402-407 starts
  after that block.
\<close>

definition analyze_video_endpoint ::
  "(string \<Rightarrow> error + json) \<Rightarrow> surroundings \<Rightarrow> 'u option \<Rightarrow> string option \<Rightarrow> string set
     \<Rightarrow> (error + json) \<times> string set" where
  "analyze_video_endpoint loads env video_file youtube_url fs =
     (if video_file = None \<and> \<not> truthy youtube_url
      then (Inl (HTTPException 400), fs)
      else
        let (inventory, fs') =
              (if truthy youtube_url
               then (analyze_youtube_video loads (service_response env), fs)
               else
                 (case named_temporary_file env of
                    Inl e \<Rightarrow> (Inl e, fs)
                  | Inr temp_path \<Rightarrow>
                      let fs1 = insert temp_path fs in
                      (case copyfileobj env of
                         Some e \<Rightarrow> (Inl e, fs1)
                       | None \<Rightarrow>
                           let inventory = analyze_video_file loads (service_response env) in
                           (case os_unlink temp_path fs1 of
                              Inl e \<Rightarrow> (Inl e, fs1)
                            | Inr fs2 \<Rightarrow> (inventory, fs2)))))
        in (case ebind inventory (video_analysis_response env) of
              Inl e \<Rightarrow> (Inl (HTTPException 500), fs')
            | Inr r \<Rightarrow> (Inr r, fs')))"

subsection \<open>The examples of the source\<close>

text \<open>
  The inventory and the staffing recommendation that the prompts give as the expected
  shape of an answer (\<^verbatim>\<open>main.py\<close> lines 50-57 and 190-195, \<^verbatim>\<open>move.py\<close> lines 120-127
  and 266-271), and the move of the usage example (\<^verbatim>\<open>main.py\<close> lines 335-344).
\<close>

definition example_inventory :: inventory where
  "example_inventory =
     \<lparr>items =
        [JObj [(''name'', JStr ''sofa''), (''quantity'', JNum 1), (''size'', JStr ''large''),
               (''category'', JStr ''furniture'')],
         JObj [(''name'', JStr ''dining table''), (''quantity'', JNum 1),
               (''size'', JStr ''large''), (''category'', JStr ''furniture'')]],
      total_volume_cubic_feet = Some 800,
      needs_special_handling = Some [''piano'', ''large_wardrobe'']\<rparr>"

definition example_staffing :: json where
  "example_staffing =
     JObj [(''recommended_movers'', JNum 3), (''truck_type'', JStr ''medium''),
           (''complexity_hours_add'', JNum (3 / 2)),
           (''special_notes'', JStr ''Piano requires extra care and time'')]"

definition example_move :: move_parameters where
  "example_move =
     \<lparr>distance_km = 45, origin_floor = 3, destination_floor = 2,
      has_elevator_origin = False, has_elevator_destination = True\<rparr>"

section \<open>Stage 2 in binary64 arithmetic\<close>

text \<open>
  The pricing once more, with the numbers Python computes with. A Python \<^verbatim>\<open>float\<close> is an
  IEEE 754 binary64 value: a finite double, an infinity or NaN. The two zeros are one
  value here, as they are for \<^verbatim>\<open>==\<close>. Every operation takes the exact result and rounds it
  to the nearest double, a half to the even significand; a result of magnitude
  \<open>2\<^sup>1\<^sup>0\<^sup>2\<^sup>4\<close> or more after rounding is an infinity.
\<close>

datatype pyfloat = Finite rat | PosInf | NegInf | NaN

text \<open>For a positive \<open>x\<close>, the exponent \<open>e\<close> with \<open>2\<^sup>e \<le> x < 2\<^sup>e\<^sup>+\<^sup>1\<close>, from the bit lengths of
  numerator and denominator.\<close>

definition floor_log2 :: "rat \<Rightarrow> int" where
  "floor_log2 x =
     (let (p, q) = quotient_of x; d = bitlen p - bitlen q
      in if (2 :: rat) powi d \<le> x then d else d - 1)"

text \<open>
  Rounding to binary64: 53 significant bits, so the spacing of the doubles around \<open>x\<close> is
  \<open>2\<^sup>e\<^sup>-\<^sup>5\<^sup>2\<close>, and \<open>2\<^sup>-\<^sup>1\<^sup>0\<^sup>7\<^sup>4\<close> in the subnormal range.
\<close>

definition fl :: "rat \<Rightarrow> pyfloat" where
  "fl x =
     (if x = 0 then Finite 0
      else
        let q = max (floor_log2 \<bar>x\<bar> - 52) (- 1074);
            y = of_int (round_half_even (x / 2 powi q)) * 2 powi q
        in if 2 ^ 1024 \<le> \<bar>y\<bar> then (if 0 < x then PosInf else NegInf) else Finite y)"

text \<open>\<^verbatim>\<open>x + y\<close> and \<^verbatim>\<open>x * y\<close> on floats.\<close>

fun fadd :: "pyfloat \<Rightarrow> pyfloat \<Rightarrow> pyfloat" where
  "fadd (Finite a) (Finite b) = fl (a + b)"
| "fadd NaN y = NaN"
| "fadd x NaN = NaN"
| "fadd PosInf NegInf = NaN"
| "fadd NegInf PosInf = NaN"
| "fadd PosInf y = PosInf"
| "fadd x PosInf = PosInf"
| "fadd NegInf y = NegInf"
| "fadd x NegInf = NegInf"

definition inf_times :: "bool \<Rightarrow> rat \<Rightarrow> pyfloat" where
  "inf_times positive a =
     (if a = 0 then NaN else if (0 < a) = positive then PosInf else NegInf)"

fun fmul :: "pyfloat \<Rightarrow> pyfloat \<Rightarrow> pyfloat" where
  "fmul (Finite a) (Finite b) = fl (a * b)"
| "fmul NaN y = NaN"
| "fmul x NaN = NaN"
| "fmul (Finite a) PosInf = inf_times True a"
| "fmul (Finite a) NegInf = inf_times False a"
| "fmul PosInf (Finite b) = inf_times True b"
| "fmul NegInf (Finite b) = inf_times False b"
| "fmul PosInf PosInf = PosInf"
| "fmul NegInf NegInf = PosInf"
| "fmul PosInf NegInf = NegInf"
| "fmul NegInf PosInf = NegInf"

text \<open>
  \<^verbatim>\<open>round(x, n)\<close> on a float: the exact value of \<open>x\<close> is rounded to \<open>n\<close> decimals, a half to
  the even neighbour, and the decimal number is converted back to the nearest double.
  Infinities and NaN round to themselves.
\<close>

fun fround :: "pyfloat \<Rightarrow> nat \<Rightarrow> pyfloat" where
  "fround (Finite x) n = fl (of_int (round_half_even (x * 10 ^ n)) / 10 ^ n)"
| "fround x n = x"

text \<open>
  Numbers of the inventory, of the move and of the recommendation. A number \<open>r\<close> stands
  for the Python \<^verbatim>\<open>int\<close> \<open>r\<close> when \<open>r\<close> is an integer, and for the float nearest to \<open>r\<close>
  otherwise. A float whose value is an integer is not told apart from the \<^verbatim>\<open>int\<close>: the two
  give the same result in every operation of the pricing.

  The float of a number: an \<^verbatim>\<open>int\<close> is converted when it meets a float, to the nearest
  double, and one too large for a double raises \<^verbatim>\<open>OverflowError\<close>.
\<close>

definition number_as_float :: "rat \<Rightarrow> error + pyfloat" where
  "number_as_float r = (case fl r of Finite y \<Rightarrow> Inr (Finite y) | _ \<Rightarrow> Inl OverflowError)"

text \<open>
  \<^verbatim>\<open>volume / 100\<close>. The quotient of two \<^verbatim>\<open>int\<close>s is the exact quotient rounded once, and
  \<^verbatim>\<open>OverflowError\<close> when that is too large for a double; the quotient of a float and 100 is
  the quotient of the float of 100, rounded.
\<close>

definition is_integer :: "rat \<Rightarrow> bool" where
  "is_integer r = (of_int \<lfloor>r\<rfloor> = r)"

fun fdiv_100 :: "pyfloat \<Rightarrow> pyfloat" where
  "fdiv_100 (Finite a) = fl (a / 100)"
| "fdiv_100 x = x"

definition volume_by_100 :: "rat \<Rightarrow> error + pyfloat" where
  "volume_by_100 r =
     (if is_integer r then number_as_float (r / 100)
      else ebind (number_as_float r) (\<lambda>x. Inr (fdiv_100 x)))"

text \<open>
  The float operand that a decoded value gives to \<^verbatim>\<open>+\<close> or \<^verbatim>\<open>*\<close> with a float: the float of
  a number, 1 and 0 for \<^verbatim>\<open>True\<close> and \<^verbatim>\<open>False\<close>, and \<^verbatim>\<open>TypeError\<close> for anything that is not a
  number.
\<close>

fun as_float :: "json \<Rightarrow> error + pyfloat" where
  "as_float (JNum r) = number_as_float r"
| "as_float (JBool b) = Inr (Finite (if b then 1 else 0))"
| "as_float v = Inl TypeError"

subsection \<open>Pricing\<close>

text \<open>The returned dictionary with its floats. The stairs fee is an \<^verbatim>\<open>int\<close> in Python, not
  bounded, and is kept as an integer; the truck rate is the float of the \<^verbatim>\<open>int\<close> of the
  table.\<close>

record breakdown64 =
  labor64 :: pyfloat
  truck64 :: pyfloat
  fuel64 :: pyfloat
  materials64 :: pyfloat
  stairs_fee64 :: int
  other64 :: pyfloat

record estimate64 =
  total_cost64 :: pyfloat
  cost_range64 :: "pyfloat list"
  movers_needed64 :: json
  truck_type64 :: json
  estimated_hours64 :: pyfloat
  breakdown64 :: breakdown64
  special_notes64 :: json

text \<open>
  \<^verbatim>\<open>move.py\<close> lines 299-353. The literals \<^verbatim>\<open>0.5\<close>, \<^verbatim>\<open>0.20\<close>, \<^verbatim>\<open>0.05\<close>, \<^verbatim>\<open>0.9\<close> and \<^verbatim>\<open>1.1\<close>
  are the doubles nearest to them; the \<^verbatim>\<open>int\<close>s 4 and 35 and the truck rates of the table
  are doubles as they are. The statements are in the order of the source, and the sums
  are taken from left to right, as Python evaluates them.
\<close>

definition pricing_move64 :: "json \<Rightarrow> inventory \<Rightarrow> move_parameters \<Rightarrow> error + estimate64" where
  "pricing_move64 ai_estimate inventory m =
     (let volume = (case total_volume_cubic_feet inventory of None \<Rightarrow> 500 | Some v \<Rightarrow> v) in
      ebind (subscript ai_estimate ''recommended_movers'') (\<lambda>movers.
      ebind (subscript ai_estimate ''truck_type'') (\<lambda>truck_type'.
      ebind (volume_by_100 volume) (\<lambda>hundreds.
      let volume_hours = fmul hundreds (fl hour_per_100_cubic_feet) in
      ebind (get ai_estimate ''complexity_hours_add'' (JNum 0)) (\<lambda>complexity_hours.
      ebind (as_float complexity_hours) (\<lambda>complexity_hours'.
      let estimated_hours' =
            fround (fadd (fadd (Finite base_hours) volume_hours) complexity_hours') 1 in
      ebind (as_float movers) (\<lambda>movers'.
      let labor_cost =
            fround (fmul (fmul movers' estimated_hours') (Finite labor_rate_per_hour)) 2 in
      ebind (truck_rate truck_type') (\<lambda>truck_base.
      ebind (number_as_float (distance_km m)) (\<lambda>distance.
      let fuel_cost = fround (fmul distance (fl fuel_cost_per_km)) 2 in
      ebind (number_as_float volume) (\<lambda>volume'.
      let stairs_fee' = stairs_floors m * stairs_fee_per_floor;
          materials_cost = fround (fmul volume' (fl packing_material_per_cubic_feet)) 2;
          other_fees =
            fround (fmul (fadd (fadd labor_cost (Finite truck_base)) fuel_cost)
                         (fl (5 / 100))) 2
      in
      ebind (number_as_float (of_int stairs_fee')) (\<lambda>stairs.
      let total_cost' =
            fround (fadd (fadd (fadd (fadd (fadd labor_cost (Finite truck_base)) fuel_cost)
                                     stairs) materials_cost) other_fees) 2;
          cost_min = fround (fmul total_cost' (fl (9 / 10))) 2;
          cost_max = fround (fmul total_cost' (fl (11 / 10))) 2
      in
      ebind (get ai_estimate ''special_notes'' (JStr [])) (\<lambda>notes.
      Inr \<lparr>total_cost64 = total_cost',
           cost_range64 = [cost_min, cost_max],
           movers_needed64 = movers,
           truck_type64 = truck_type',
           estimated_hours64 = estimated_hours',
           breakdown64 = \<lparr>labor64 = labor_cost, truck64 = Finite truck_base,
                          fuel64 = fuel_cost, materials64 = materials_cost,
                          stairs_fee64 = stairs_fee', other64 = other_fees\<rparr>,
           special_notes64 = notes\<rparr>))))))))))))"

text \<open>
  \<^verbatim>\<open>main.py\<close> lines 225-280: \<^verbatim>\<open>truck_total = truck_base + fuel_cost\<close> is a double of its
  own (line 242), and the other fees and the total add the labor cost to that double.
\<close>

definition pricing_main64 :: "json \<Rightarrow> inventory \<Rightarrow> move_parameters \<Rightarrow> error + estimate64" where
  "pricing_main64 ai_estimate inventory m =
     (let volume = (case total_volume_cubic_feet inventory of None \<Rightarrow> 500 | Some v \<Rightarrow> v) in
      ebind (subscript ai_estimate ''recommended_movers'') (\<lambda>movers.
      ebind (subscript ai_estimate ''truck_type'') (\<lambda>truck_type'.
      ebind (volume_by_100 volume) (\<lambda>hundreds.
      let volume_hours = fmul hundreds (fl hour_per_100_cubic_feet) in
      ebind (get ai_estimate ''complexity_hours_add'' (JNum 0)) (\<lambda>complexity_hours.
      ebind (as_float complexity_hours) (\<lambda>complexity_hours'.
      let estimated_hours' =
            fround (fadd (fadd (Finite base_hours) volume_hours) complexity_hours') 1 in
      ebind (as_float movers) (\<lambda>movers'.
      let labor_cost =
            fround (fmul (fmul movers' estimated_hours') (Finite labor_rate_per_hour)) 2 in
      ebind (truck_rate truck_type') (\<lambda>truck_base.
      ebind (number_as_float (distance_km m)) (\<lambda>distance.
      let fuel_cost = fround (fmul distance (fl fuel_cost_per_km)) 2 in
      ebind (number_as_float volume) (\<lambda>volume'.
      let truck_total = fadd (Finite truck_base) fuel_cost;
          stairs_fee' = stairs_floors m * stairs_fee_per_floor;
          materials_cost = fround (fmul volume' (fl packing_material_per_cubic_feet)) 2;
          other_fees = fround (fmul (fadd labor_cost truck_total) (fl (5 / 100))) 2
      in
      ebind (number_as_float (of_int stairs_fee')) (\<lambda>stairs.
      let total_cost' =
            fround (fadd (fadd (fadd (fadd labor_cost truck_total) stairs) materials_cost)
                         other_fees) 2;
          cost_min = fround (fmul total_cost' (fl (9 / 10))) 2;
          cost_max = fround (fmul total_cost' (fl (11 / 10))) 2
      in
      ebind (get ai_estimate ''special_notes'' (JStr [])) (\<lambda>notes.
      Inr \<lparr>total_cost64 = total_cost',
           cost_range64 = [cost_min, cost_max],
           movers_needed64 = movers,
           truck_type64 = truck_type',
           estimated_hours64 = estimated_hours',
           breakdown64 = \<lparr>labor64 = labor_cost, truck64 = Finite truck_base,
                          fuel64 = fuel_cost, materials64 = materials_cost,
                          stairs_fee64 = stairs_fee', other64 = other_fees\<rparr>,
           special_notes64 = notes\<rparr>))))))))))))"

subsection \<open>The invariant of the specification\<close>

text \<open>
  The total that the specification states, as Python evaluates it over the breakdown of an
  estimate: \<^verbatim>\<open>round(labor + truck_base + fuel + stairs_fee + materials + other, 2)\<close>, the sum
  taken from left to right and the \<^verbatim>\<open>int\<close> \<^verbatim>\<open>stairs_fee\<close> converted when it is added; and the
  range \<^verbatim>\<open>[round(total_cost*0.9, 2), round(total_cost*1.1, 2)]\<close>.
\<close>

definition invariant_total :: "breakdown64 \<Rightarrow> error + pyfloat" where
  "invariant_total b =
     ebind (number_as_float (of_int (stairs_fee64 b))) (\<lambda>stairs.
     Inr (fround (fadd (fadd (fadd (fadd (fadd (labor64 b) (truck64 b)) (fuel64 b)) stairs)
                              (materials64 b)) (other64 b)) 2))"

definition invariant_range :: "pyfloat \<Rightarrow> pyfloat list" where
  "invariant_range total_cost' =
     [fround (fmul total_cost' (fl (9 / 10))) 2, fround (fmul total_cost' (fl (11 / 10))) 2]"

text \<open>The same sum with the truck rate and the fuel added up first, which is the
  expression of \<^verbatim>\<open>main.py\<close> (lines 242 and 259).\<close>

definition total_with_truck_total :: "breakdown64 \<Rightarrow> error + pyfloat" where
  "total_with_truck_total b =
     ebind (number_as_float (of_int (stairs_fee64 b))) (\<lambda>stairs.
     Inr (fround (fadd (fadd (fadd (fadd (labor64 b) (fadd (truck64 b) (fuel64 b))) stairs)
                              (materials64 b)) (other64 b)) 2))"

text \<open>
  The other fees over the breakdown of an estimate: 5 percent of labor, truck rate and
  fuel, added from left to right (\<^verbatim>\<open>move.py\<close> line 329) or with the truck rate and the fuel
  added up first (\<^verbatim>\<open>main.py\<close> lines 242 and 256); and 5 percent of the labor cost alone,
  the base without truck and fuel that the specification ascribes to one of the files.
\<close>

definition other_fees_left_to_right :: "breakdown64 \<Rightarrow> pyfloat" where
  "other_fees_left_to_right b =
     fround (fmul (fadd (fadd (labor64 b) (truck64 b)) (fuel64 b)) (fl (5 / 100))) 2"

definition other_fees_with_truck_total :: "breakdown64 \<Rightarrow> pyfloat" where
  "other_fees_with_truck_total b =
     fround (fmul (fadd (labor64 b) (fadd (truck64 b) (fuel64 b))) (fl (5 / 100))) 2"

definition other_fees_of_labor_only :: "breakdown64 \<Rightarrow> pyfloat" where
  "other_fees_of_labor_only b = fround (fmul (labor64 b) (fl (5 / 100))) 2"

subsection \<open>An input of large magnitude\<close>

text \<open>A recommendation of \<open>10\<^sup>1\<^sup>5\<close> movers with a large truck, for an empty inventory and a
  move of 45 km between two ground floors. The labor cost is then 1.4e17, where
  neighbouring doubles are 16 apart.\<close>

definition many_movers :: json where
  "many_movers =
     JObj [(''recommended_movers'', JNum 1000000000000000), (''truck_type'', JStr ''large''),
           (''complexity_hours_add'', JNum 0), (''special_notes'', JStr [])]"

definition empty_inventory :: inventory where
  "empty_inventory =
     \<lparr>items = [], total_volume_cubic_feet = Some 0, needs_special_handling = Some []\<rparr>"

definition ground_floor_move :: move_parameters where
  "ground_floor_move =
     \<lparr>distance_km = 45, origin_floor = 1, destination_floor = 1,
      has_elevator_origin = False, has_elevator_destination = False\<rparr>"

section \<open>Properties\<close>

subsection \<open>Auxiliary facts\<close>

lemmas pricing_config_defs =
  labor_rate_per_hour_def truck_rates_def fuel_cost_per_km_def stairs_fee_per_floor_def
  packing_material_per_cubic_feet_def base_hours_def hour_per_100_cubic_feet_def

lemma ebind_Inr_iff: "ebind x f = Inr y \<longleftrightarrow> (\<exists>a. x = Inr a \<and> f a = Inr y)"
  by (cases x) (simp_all add: ebind_def)

text \<open>Evaluating \<open>py_round\<close>: a value with at most \<open>n\<close> decimals is left as it is.\<close>

lemma round_half_even_of_int: "round_half_even (of_int k) = k"
  by (simp add: round_half_even_def)

lemma py_round_exact: "py_round (of_int k / 10 ^ n) n = of_int k / 10 ^ n"
  by (simp add: py_round_def round_half_even_of_int)

text \<open>In exact arithmetic the grouping \<^verbatim>\<open>truck_total = truck_base + fuel_cost\<close> of
  \<^verbatim>\<open>main.py\<close> changes no value: the two pricing functions agree on every input.\<close>

lemma pricing_main_eq_move: "pricing_main ai iv m = pricing_move ai iv m"
  by (simp add: pricing_main_def pricing_move_def add.assoc)


lemma staffing_failed:
  "inference_attempt loads response = Inl e \<Longrightarrow>
   staffing_recommendation loads response iv = fallback iv"
  by (simp add: staffing_recommendation_def)

lemma inference_attempt_failed:
  assumes "response = Inl e \<or> (\<exists>t. response = Inr t \<and> parse_response loads t = Inl e)"
  shows "inference_attempt loads response = Inl e"
  using assms by (auto simp: inference_attempt_def ebind_def)

text \<open>The worked example, for any items, special handling and notes.\<close>

lemma pricing_example:
  "pricing_move
     (JObj [(''recommended_movers'', JNum 3), (''truck_type'', JStr ''medium''),
            (''complexity_hours_add'', JNum (3 / 2)), (''special_notes'', notes)])
     \<lparr>items = its, total_volume_cubic_feet = Some 800, needs_special_handling = hs\<rparr>
     \<lparr>distance_km = 45, origin_floor = 3, destination_floor = 2,
      has_elevator_origin = False, has_elevator_destination = True\<rparr>
   = Inr \<lparr>total_cost = 1407, cost_range = [12663 / 10, 15477 / 10],
          movers_needed = JNum 3, truck_type = JStr ''medium'',
          estimated_hours = 19 / 2,
          breakdown =
            \<lparr>labor = 1995 / 2, truck = 120, fuel = 45 / 2, materials = 160,
             stairs_fee = 50, other = 57\<rparr>,
          special_notes = notes\<rparr>"
proof -
  have hours: "py_round (19 / 2) (Suc 0) = 19 / 2"
    using py_round_exact [of 95 "Suc 0"] by simp
  have labor_cost: "py_round (1995 / 2) 2 = 1995 / 2"
    using py_round_exact [of 99750 2] by simp
  have fuel_cost: "py_round (45 / 2) 2 = 45 / 2"
    using py_round_exact [of 2250 2] by simp
  have materials_cost: "py_round 160 2 = 160"
    using py_round_exact [of 16000 2] by simp
  have other_fees: "py_round 57 2 = 57"
    using py_round_exact [of 5700 2] by simp
  have total: "py_round 1407 2 = 1407"
    using py_round_exact [of 140700 2] by simp
  have cost_min: "py_round (12663 / 10) 2 = 12663 / 10"
    using py_round_exact [of 126630 2] by simp
  have cost_max: "py_round (15477 / 10) 2 = 15477 / 10"
    using py_round_exact [of 154770 2] by simp
  show ?thesis
    by (simp add: pricing_move_def ebind_def Let_def pricing_config_defs stairs_floors_def
          hours labor_cost fuel_cost materials_cost other_fees total cost_min cost_max)
qed

lemma example_priced:
  "pricing_move example_staffing example_inventory example_move
   = Inr \<lparr>total_cost = 1407, cost_range = [12663 / 10, 15477 / 10],
          movers_needed = JNum 3, truck_type = JStr ''medium'',
          estimated_hours = 19 / 2,
          breakdown =
            \<lparr>labor = 1995 / 2, truck = 120, fuel = 45 / 2, materials = 160,
             stairs_fee = 50, other = 57\<rparr>,
          special_notes = JStr ''Piano requires extra care and time''\<rparr>"
  unfolding example_staffing_def example_inventory_def example_move_def
  by (rule pricing_example)

subsection \<open>Pricing\<close>

text \<open>
  Claim C2. The worked example: volume 800 and no special handling, 45 km, from the third
  floor without an elevator to the second floor with one, three movers, a medium truck
  and 1.5 complexity hours give 9.5 hours, labor 997.5, truck 120, fuel 22.5, stairs fee
  50, materials 160, other 57, total 1407 and the range 1266.3 to 1547.7, in both files.
\<close>

theorem C2_worked_example:
  "pricing_move
     (JObj [(''recommended_movers'', JNum 3), (''truck_type'', JStr ''medium''),
            (''complexity_hours_add'', JNum (3 / 2)), (''special_notes'', notes)])
     \<lparr>items = its, total_volume_cubic_feet = Some 800, needs_special_handling = Some []\<rparr>
     \<lparr>distance_km = 45, origin_floor = 3, destination_floor = 2,
      has_elevator_origin = False, has_elevator_destination = True\<rparr>
   = Inr \<lparr>total_cost = 1407, cost_range = [12663 / 10, 15477 / 10],
          movers_needed = JNum 3, truck_type = JStr ''medium'',
          estimated_hours = 19 / 2,
          breakdown =
            \<lparr>labor = 1995 / 2, truck = 120, fuel = 45 / 2, materials = 160,
             stairs_fee = 50, other = 57\<rparr>,
          special_notes = notes\<rparr>
   \<and> pricing_main
     (JObj [(''recommended_movers'', JNum 3), (''truck_type'', JStr ''medium''),
            (''complexity_hours_add'', JNum (3 / 2)), (''special_notes'', notes)])
     \<lparr>items = its, total_volume_cubic_feet = Some 800, needs_special_handling = Some []\<rparr>
     \<lparr>distance_km = 45, origin_floor = 3, destination_floor = 2,
      has_elevator_origin = False, has_elevator_destination = True\<rparr>
   = Inr \<lparr>total_cost = 1407, cost_range = [12663 / 10, 15477 / 10],
          movers_needed = JNum 3, truck_type = JStr ''medium'',
          estimated_hours = 19 / 2,
          breakdown =
            \<lparr>labor = 1995 / 2, truck = 120, fuel = 45 / 2, materials = 160,
             stairs_fee = 50, other = 57\<rparr>,
          special_notes = notes\<rparr>"
  by (simp add: pricing_main_eq_move pricing_example)

subsection \<open>The fallback recommendation\<close>

text \<open>
  Claim C3. When the request to the inference service raises, or the cleanup or the
  decoding of its answer raises, the staffing recommendation is the fallback: with \<open>v\<close>
  the total volume of the inventory (500 when the key is absent), 2 movers below 400,
  3 below 800 and 4 otherwise; a small truck below 400, a medium one below 900 and a
  large one otherwise; half an hour for each entry of the special handling list (none
  when the key is absent); empty notes. It depends on the inventory only: any two failed
  attempts give the same recommendation.
\<close>

theorem C3_fallback_rule:
  assumes failed:
      "response = Inl e \<or> (\<exists>t. response = Inr t \<and> parse_response loads t = Inl e)"
    and failed':
      "response' = Inl e' \<or> (\<exists>t. response' = Inr t \<and> parse_response loads' t = Inl e')"
    and v: "v = (case total_volume_cubic_feet iv of None \<Rightarrow> 500 | Some x \<Rightarrow> x)"
    and hs: "hs = (case needs_special_handling iv of None \<Rightarrow> [] | Some l \<Rightarrow> l)"
  shows "staffing_recommendation loads response iv =
           JObj [(''recommended_movers'',
                    JNum (if v < 400 then 2 else if v < 800 then 3 else 4)),
                 (''truck_type'',
                    JStr (if v < 400 then ''small'' else if v < 900 then ''medium''
                          else ''large'')),
                 (''complexity_hours_add'', JNum ((1 / 2) * of_nat (length hs))),
                 (''special_notes'', JStr [])]
         \<and> staffing_recommendation loads' response' iv =
             staffing_recommendation loads response iv"
proof -
  have "staffing_recommendation loads response iv = fallback iv"
    by (rule staffing_failed [OF inference_attempt_failed [OF failed]])
  moreover have "staffing_recommendation loads' response' iv = fallback iv"
    by (rule staffing_failed [OF inference_attempt_failed [OF failed']])
  ultimately show ?thesis
    by (simp add: fallback_def v hs)
qed

text \<open>
  The rule at the example inventory (volume 800, two entries of special handling), once
  for an answer that is not JSON and once for a failed request.
\<close>

theorem C3_fallback_rule_witness:
  "parse_response (\<lambda>t. Inl JSONDecodeError) ''I cannot help with that'' = Inl JSONDecodeError
   \<and> staffing_recommendation (\<lambda>t. Inl JSONDecodeError) (Inr ''I cannot help with that'')
         example_inventory =
       JObj [(''recommended_movers'', JNum 4), (''truck_type'', JStr ''medium''),
             (''complexity_hours_add'', JNum 1), (''special_notes'', JStr [])]
   \<and> staffing_recommendation (\<lambda>t. Inl JSONDecodeError) (Inl ServiceError) example_inventory =
       staffing_recommendation (\<lambda>t. Inl JSONDecodeError) (Inr ''I cannot help with that'')
         example_inventory"
proof -
  have p: "parse_response (\<lambda>t. Inl JSONDecodeError) ''I cannot help with that''
             = Inl JSONDecodeError"
    by (simp add: parse_response_def clean_response_def ebind_def Let_def strip_def
          startswith_def isspace_def)
  have v: "(800 :: rat) = (case total_volume_cubic_feet example_inventory of
                            None \<Rightarrow> 500 | Some x \<Rightarrow> x)"
    by (simp add: example_inventory_def)
  have hs: "[''piano'', ''large_wardrobe''] =
              (case needs_special_handling example_inventory of None \<Rightarrow> [] | Some l \<Rightarrow> l)"
    by (simp add: example_inventory_def)
  have "staffing_recommendation (\<lambda>t. Inl JSONDecodeError)
          (Inr ''I cannot help with that'') example_inventory =
           JObj [(''recommended_movers'',
                    JNum (if (800 :: rat) < 400 then 2 else if (800 :: rat) < 800 then 3 else 4)),
                 (''truck_type'',
                    JStr (if (800 :: rat) < 400 then ''small''
                          else if (800 :: rat) < 900 then ''medium'' else ''large'')),
                 (''complexity_hours_add'',
                    JNum ((1 / 2) * of_nat (length [''piano'', ''large_wardrobe'']))),
                 (''special_notes'', JStr [])]
         \<and> staffing_recommendation (\<lambda>t. Inl JSONDecodeError) (Inl ServiceError)
             example_inventory =
             staffing_recommendation (\<lambda>t. Inl JSONDecodeError)
               (Inr ''I cannot help with that'') example_inventory"
    by (rule C3_fallback_rule [OF _ _ v hs, where e = JSONDecodeError and e' = ServiceError])
       (simp_all add: p)
  then show ?thesis using p by simp
qed

text \<open>
  Claim C4, as the code has it. For a volume of 850 and the special handling list
  \<^verbatim>\<open>["piano"]\<close> the fallback gives 4 movers, a medium truck (850 is below 900) and
  0.5 complexity hours.
\<close>

theorem C4_fallback_850:
  "fallback \<lparr>items = its, total_volume_cubic_feet = Some 850,
             needs_special_handling = Some [''piano'']\<rparr>
   = JObj [(''recommended_movers'', JNum 4), (''truck_type'', JStr ''medium''),
           (''complexity_hours_add'', JNum (1 / 2)), (''special_notes'', JStr [])]"
  by (simp add: fallback_def)

text \<open>
  The truck tier that C4 states, large, is not the one the fallback gives at 850.
\<close>

theorem C4_fallback_850_counterexample:
  "subscript (fallback \<lparr>items = [], total_volume_cubic_feet = Some 850,
                         needs_special_handling = Some [''piano'']\<rparr>) ''truck_type''
     = Inr (JStr ''medium'')
   \<and> subscript (fallback \<lparr>items = [], total_volume_cubic_feet = Some 850,
                           needs_special_handling = Some [''piano'']\<rparr>) ''truck_type''
     \<noteq> Inr (JStr ''large'')"
  by (simp add: fallback_def)



subsection \<open>Failures of the pricing step\<close>




















subsection \<open>The structured-output parser\<close>

text \<open>
  \<^verbatim>\<open>split\<close> cuts at the first occurrence of the separator; a character that the pattern
  does not contain separates its occurrences; whitespace at either end is stripped. With
  these, the cleanup of a fenced payload that contains no fence, and of a payload that
  does not start with one.
\<close>

lemma prefix_append_short:
  assumes "prefix xs (ys @ zs)" "length xs \<le> length ys"
  shows "prefix xs ys"
  using assms by (auto simp: prefix_append)

lemma split_on_first:
  assumes "sep \<noteq> []" "\<not> sublist sep (u @ butlast sep)"
  shows "split_on sep (u @ sep @ w) = u # split_on sep w"
  using assms(2)
proof (induction u)
  case Nil
  from assms(1) obtain c cs where sep: "sep = c # cs"
    by (cases sep) auto
  show ?case by (simp add: sep)
next
  case (Cons a u)
  from Cons.prems have no_prefix: "\<not> prefix sep (a # u @ butlast sep)"
    and rest: "\<not> sublist sep (u @ butlast sep)"
    by (simp_all add: sublist_Cons_right)
  have "\<not> prefix sep (a # u @ sep @ w)"
  proof
    assume p: "prefix sep (a # u @ sep @ w)"
    have "a # u @ sep @ w = (a # u @ butlast sep) @ (last sep # w)"
      using assms(1) by simp
    with p have "prefix sep ((a # u @ butlast sep) @ (last sep # w))"
      by simp
    moreover have "length sep \<le> length (a # u @ butlast sep)"
      by simp
    ultimately have "prefix sep (a # u @ butlast sep)"
      by (rule prefix_append_short)
    with no_prefix show False by contradiction
  qed
  then show ?case
    using Cons.IH [OF rest] by simp
qed

lemma sublist_separated:
  assumes "c \<notin> set p" "p \<noteq> []"
  shows "sublist p (xs @ c # ys) \<longleftrightarrow> sublist p xs \<or> sublist p ys"
proof -
  have not_prefix: "\<not> prefix p (c # ys)"
    using assms by (cases p) auto
  have "(\<exists>p1 p2. p = p1 @ p2 \<and> suffix p1 xs \<and> prefix p2 (c # ys)) \<longrightarrow> sublist p xs"
  proof (intro impI, elim exE conjE)
    fix p1 p2
    assume p: "p = p1 @ p2" and s: "suffix p1 xs" and pre: "prefix p2 (c # ys)"
    have "p2 = []"
    proof (cases p2)
      case (Cons d ds)
      with pre have "d = c" by simp
      with Cons p assms(1) show ?thesis by simp
    qed simp
    with p s show "sublist p xs" by simp
  qed
  then show ?thesis
    using not_prefix by (auto simp: sublist_append sublist_Cons_right)
qed

lemma strip_Cons_space: "isspace c \<Longrightarrow> strip (c # xs) = strip xs"
  by (simp add: strip_def)

lemma strip_snoc_space:
  assumes "isspace c"
  shows "strip (xs @ [c]) = strip xs"
proof (cases "\<forall>x\<in>set xs. isspace x")
  case True
  then have a: "dropWhile isspace xs = []"
    by (simp only: dropWhile_eq_Nil_conv)
  from True assms have "\<forall>x\<in>set (xs @ [c]). isspace x"
    by simp
  then have b: "dropWhile isspace (xs @ [c]) = []"
    by (simp only: dropWhile_eq_Nil_conv)
  show ?thesis
    by (simp only: strip_def a b)
next
  case False
  then have "dropWhile isspace (xs @ [c]) = dropWhile isspace xs @ [c]"
    by (auto simp: dropWhile_append)
  then show ?thesis using assms by (simp add: strip_def)
qed

lemma strip_self:
  assumes "xs \<noteq> []" "\<not> isspace (hd xs)" "\<not> isspace (last xs)"
  shows "strip xs = xs"
proof -
  have "dropWhile isspace xs = xs"
    using assms(1,2) by (cases xs) auto
  moreover have "dropWhile isspace (rev xs) = rev xs"
    using assms(1,3) by (cases "rev xs") (auto simp: hd_rev)
  ultimately show ?thesis by (simp add: strip_def)
qed

lemma fence_clean:
  assumes "\<not> sublist ''```'' s"
  shows "clean_response (fence ''json'' s) = Inr (strip s)"
proof -
  let ?nl = "CHR 0x0A"
  let ?u = "''json'' @ ?nl # s @ [?nl]"
  have stripped: "strip (fence ''json'' s) = fence ''json'' s"
    by (rule strip_self) (simp_all add: fence_def isspace_def)
  have "\<not> sublist ''```'' (s @ ?nl # ''``'')"
    using assms by (simp add: sublist_separated sublist_Cons_right)
  then have "\<not> sublist ''```'' (''json'' @ ?nl # (s @ ?nl # ''``''))"
    by (simp add: sublist_separated sublist_Cons_right del: append.simps)
  then have inside: "\<not> sublist ''```'' (?u @ butlast ''```'')"
    by simp
  have "split_on ''```'' (?u @ ''```'' @ []) = ?u # split_on ''```'' []"
    by (rule split_on_first [OF _ inside]) simp
  then have parts: "split_on ''```'' (fence ''json'' s) = [[], ?u, []]"
    by (simp add: fence_def)
  have starts: "prefix ''```'' (fence ''json'' s)"
    by (simp add: fence_def)
  have nl: "isspace ?nl"
    by (simp add: isspace_def)
  have "strip (?nl # s @ [?nl]) = strip (s @ [?nl])"
    by (rule strip_Cons_space [OF nl])
  also have "\<dots> = strip s"
    by (rule strip_snoc_space [OF nl])
  finally have body: "strip (?nl # s @ [?nl]) = strip s" .
  show ?thesis
    unfolding clean_response_def Let_def stripped
    by (simp add: starts parts str_split_def list_index_def ebind_def startswith_def body)
qed

lemma plain_clean:
  assumes "\<not> startswith (strip s) ''```''"
  shows "clean_response s = Inr (strip s)"
  using assms by (simp add: clean_response_def Let_def)

text \<open>
  Claim C6, as the code has it. Let \<open>s\<close> be a serialization of the value \<open>V\<close>: a text
  without surrounding whitespace that \<^verbatim>\<open>json.loads\<close> decodes to \<open>V\<close>. If \<open>s\<close> does not
  start with three backquotes (no JSON text does), the parser returns \<open>V\<close> for \<open>s\<close>;
  and if \<open>s\<close> contains no three consecutive backquotes, the parser returns \<open>V\<close> for \<open>s\<close>
  wrapped in a \<^verbatim>\<open>json\<close> fence.
\<close>

theorem C6_round_trip:
  assumes decoded: "loads s = Inr V"
    and bare: "strip s = s"
  shows "(\<not> startswith s ''```'' \<longrightarrow> parse_response loads s = Inr V)
       \<and> (\<not> sublist ''```'' s \<longrightarrow> parse_response loads (fence ''json'' s) = Inr V)"
proof (intro conjI impI)
  assume "\<not> startswith s ''```''"
  then have "clean_response s = Inr s"
    using plain_clean [of s] by (simp add: bare)
  then show "parse_response loads s = Inr V"
    by (simp add: parse_response_def ebind_def decoded)
next
  assume "\<not> sublist ''```'' s"
  then have "clean_response (fence ''json'' s) = Inr s"
    using fence_clean [of s] by (simp add: bare)
  then show "parse_response loads (fence ''json'' s) = Inr V"
    by (simp add: parse_response_def ebind_def decoded)
qed

text \<open>
  The object \<^verbatim>\<open>{"volume": 800}\<close>, plain and fenced, with a decoder that knows this one
  text.
\<close>

theorem C6_round_trip_witness:
  "parse_response
     (\<lambda>t. if t = ''{'' @ [CHR 0x22] @ ''volume'' @ [CHR 0x22] @ '': 800}''
          then Inr (JObj [(''volume'', JNum 800)]) else Inl JSONDecodeError)
     (''{'' @ [CHR 0x22] @ ''volume'' @ [CHR 0x22] @ '': 800}'')
     = Inr (JObj [(''volume'', JNum 800)])
   \<and> parse_response
     (\<lambda>t. if t = ''{'' @ [CHR 0x22] @ ''volume'' @ [CHR 0x22] @ '': 800}''
          then Inr (JObj [(''volume'', JNum 800)]) else Inl JSONDecodeError)
     (fence ''json'' (''{'' @ [CHR 0x22] @ ''volume'' @ [CHR 0x22] @ '': 800}''))
     = Inr (JObj [(''volume'', JNum 800)])"
proof -
  let ?s = "''{'' @ [CHR 0x22] @ ''volume'' @ [CHR 0x22] @ '': 800}''"
  let ?loads = "\<lambda>t. if t = ?s then Inr (JObj [(''volume'', JNum 800)])
                    else Inl JSONDecodeError"
  have decoded: "?loads ?s = Inr (JObj [(''volume'', JNum 800)])"
    by simp
  have bare: "strip ?s = ?s"
    by (simp add: strip_def isspace_def)
  have plain: "\<not> startswith ?s ''```''"
    by (simp add: startswith_def)
  have inside: "\<not> sublist ''```'' ?s"
    by (simp add: sublist_Cons_right)
  from C6_round_trip [of ?loads ?s, OF decoded bare] plain inside
  show ?thesis by blast
qed

text \<open>
  C6 states the round trip for every JSON value. For the JSON string \<^verbatim>\<open>"a```b"\<close> the
  cleanup of the fenced text cuts at the backquotes inside the string and hands the
  decoder the two characters \<^verbatim>\<open>"a\<close>. It hands it the same two characters for
  \<^verbatim>\<open>"a```c"\<close>, so whatever the decoder is, the round trip fails for one of the two
  strings.
\<close>

theorem C6_round_trip_counterexample:
  "clean_response (fence ''json'' ([CHR 0x22] @ ''a```b'' @ [CHR 0x22])) = Inr [CHR 0x22, CHR ''a'']
   \<and> \<not> (\<exists>loads :: string \<Rightarrow> error + json.
          parse_response loads (fence ''json'' ([CHR 0x22] @ ''a```b'' @ [CHR 0x22]))
            = Inr (JStr ''a```b'')
        \<and> parse_response loads (fence ''json'' ([CHR 0x22] @ ''a```c'' @ [CHR 0x22]))
            = Inr (JStr ''a```c''))"
proof -
  have b: "clean_response (fence ''json'' ([CHR 0x22] @ ''a```b'' @ [CHR 0x22]))
             = Inr [CHR 0x22, CHR ''a'']"
    by (simp add: clean_response_def fence_def strip_def isspace_def startswith_def
          str_split_def list_index_def ebind_def Let_def)
  have c: "clean_response (fence ''json'' ([CHR 0x22] @ ''a```c'' @ [CHR 0x22]))
             = Inr [CHR 0x22, CHR ''a'']"
    by (simp add: clean_response_def fence_def strip_def isspace_def startswith_def
          str_split_def list_index_def ebind_def Let_def)
  show ?thesis
  proof (intro conjI notI)
    show "clean_response (fence ''json'' ([CHR 0x22] @ ''a```b'' @ [CHR 0x22]))
            = Inr [CHR 0x22, CHR ''a'']"
      by (rule b)
  next
    assume "\<exists>loads :: string \<Rightarrow> error + json.
          parse_response loads (fence ''json'' ([CHR 0x22] @ ''a```b'' @ [CHR 0x22]))
            = Inr (JStr ''a```b'')
        \<and> parse_response loads (fence ''json'' ([CHR 0x22] @ ''a```c'' @ [CHR 0x22]))
            = Inr (JStr ''a```c'')"
    then obtain loads :: "string \<Rightarrow> error + json"
      where 1: "parse_response loads (fence ''json'' ([CHR 0x22] @ ''a```b'' @ [CHR 0x22]))
                  = Inr (JStr ''a```b'')"
        and 2: "parse_response loads (fence ''json'' ([CHR 0x22] @ ''a```c'' @ [CHR 0x22]))
                  = Inr (JStr ''a```c'')"
      by blast
    from 1 have "loads [CHR 0x22, CHR ''a''] = Inr (JStr ''a```b'')"
      unfolding parse_response_def b by (simp add: ebind_def)
    moreover from 2 have "loads [CHR 0x22, CHR ''a''] = Inr (JStr ''a```c'')"
      unfolding parse_response_def c by (simp add: ebind_def)
    ultimately show False by simp
  qed
qed

subsection \<open>The temporary file of the endpoint\<close>

text \<open>
  Once the upload has been copied, the temporary file is deleted whether the analysis
  returns or raises.
\<close>

lemma temp_file_deleted_after_copy:
  assumes "named_temporary_file env = Inr temp_path" "copyfileobj env = None"
  shows "temp_path \<notin> snd (analyze_video_endpoint loads env (Some upload) None fs)"
  using assms
  by (simp add: analyze_video_endpoint_def os_unlink_def Let_def split: sum.splits)

text \<open>
  Claim C10 at the exit path it misses. When copying the upload into the temporary file
  raises, here with \<^verbatim>\<open>OSError\<close> on an empty file system, the handler answers status 500
  and the temporary file is still there: the copy stands before the \<^verbatim>\<open>try\<close> whose
  \<^verbatim>\<open>finally\<close> deletes the file.
\<close>

theorem C10_temp_file_left_when_copy_fails:
  "analyze_video_endpoint loads
     \<lparr>named_temporary_file = Inr ''/tmp/tmpk3x9.mp4'', copyfileobj = Some OSError,
      service_response = r, video_analysis_response = v\<rparr>
     (Some upload) None {}
   = (Inl (HTTPException 500), {''/tmp/tmpk3x9.mp4''})"
  by (simp add: analyze_video_endpoint_def ebind_def)

section \<open>Properties of the pricing in binary64 arithmetic\<close>

subsection \<open>Rounding to the nearest double\<close>

text \<open>A number within less than a half of an integer rounds to that integer.\<close>

lemma round_half_even_nearest:
  assumes "\<bar>x - of_int m\<bar> < 1 / 2"
  shows "round_half_even x = m"
proof (cases "of_int m \<le> x")
  case True
  with assms have "\<lfloor>x\<rfloor> = m" by (intro floor_unique) auto
  with assms True show ?thesis by (simp add: round_half_even_def)
next
  case False
  with assms have f: "\<lfloor>x\<rfloor> = m - 1" by (intro floor_unique) auto
  from assms False have "1 / 2 < x - of_int (m - 1)" by simp
  with f show ?thesis by (simp add: round_half_even_def)
qed

text \<open>A number halfway between two integers rounds to the even one.\<close>

lemma round_half_even_tie:
  assumes "x = of_int f + 1 / 2"
  shows "round_half_even x = (if even f then f else f + 1)"
proof -
  from assms have "\<lfloor>x\<rfloor> = f" by (intro floor_unique) auto
  with assms show ?thesis by (simp add: round_half_even_def)
qed

text \<open>The exponent of a positive number is determined by the two powers of 2 around it.\<close>

lemma floor_log2_unique:
  assumes "(2 :: rat) powi e \<le> x" "x < 2 powi (e + 1)"
    and "(2 :: rat) powi r \<le> x" "x < 2 powi (r + 1)"
  shows "r = e"
proof -
  from assms(1,4) have "(2 :: rat) powi e < 2 powi (r + 1)" by simp
  then have "e < r + 1"
    using power_int_increasing [of "r + 1" e "2 :: rat"] by (cases "e < r + 1") auto
  moreover from assms(3,2) have "(2 :: rat) powi r < 2 powi (e + 1)" by simp
  then have "r < e + 1"
    using power_int_increasing [of "e + 1" r "2 :: rat"] by (cases "r < e + 1") auto
  ultimately show ?thesis by simp
qed

lemma bitlen_powi_bounds:
  assumes "0 < p"
  shows "(2 :: rat) powi (bitlen p - 1) \<le> of_int p" "of_int p < (2 :: rat) powi bitlen p"
proof -
  from bitlen_bounds [OF assms]
  have lo: "2 ^ nat (bitlen p - 1) \<le> p" and hi: "p < 2 ^ nat (bitlen p)" by auto
  from hi assms have pos: "0 < bitlen p"
    by (cases "0 < bitlen p") auto
  from lo have "(of_int (2 ^ nat (bitlen p - 1)) :: rat) \<le> of_int p"
    by (simp only: of_int_le_iff)
  with pos show "(2 :: rat) powi (bitlen p - 1) \<le> of_int p"
    by (simp add: power_int_def)
  from hi have "(of_int p :: rat) < of_int (2 ^ nat (bitlen p))"
    by (simp only: of_int_less_iff)
  with pos show "of_int p < (2 :: rat) powi bitlen p"
    by (simp add: power_int_def)
qed

lemma floor_log2_bounds:
  assumes "0 < x"
  shows "(2 :: rat) powi floor_log2 x \<le> x \<and> x < 2 powi (floor_log2 x + 1)"
proof -
  obtain p q where pq: "quotient_of x = (p, q)" by force
  have q: "0 < q" by (rule quotient_of_denom_pos [OF pq])
  have x: "x = of_int p / of_int q" by (rule quotient_of_div [OF pq])
  from assms q x have p: "0 < p" by (simp add: zero_less_divide_iff)
  define d where "d = bitlen p - bitlen q"
  note pb = bitlen_powi_bounds [OF p] and qb = bitlen_powi_bounds [OF q]
  have qpos: "(0 :: rat) < of_int q" using q by simp
  have ppos: "(0 :: rat) \<le> of_int p" using p by simp
  have "x < 2 powi bitlen p / 2 powi (bitlen q - 1)"
    unfolding x using pb(2) qb(1) qpos ppos
    by (intro frac_less) (auto simp: less_imp_le)
  also have "\<dots> = 2 powi (d + 1)"
    by (simp add: d_def power_int_diff [symmetric] algebra_simps)
  finally have hi: "x < 2 powi (d + 1)" .
  have "(2 :: rat) powi (bitlen p - 1) / 2 powi bitlen q \<le> x"
    unfolding x using pb(1) qb(2) qpos ppos
    by (intro frac_le) (auto simp: less_imp_le)
  also have "(2 :: rat) powi (bitlen p - 1) / 2 powi bitlen q = 2 powi (d - 1)"
    by (simp add: d_def power_int_diff [symmetric] algebra_simps)
  finally have lo: "2 powi (d - 1) \<le> x" .
  have fl: "floor_log2 x = (if 2 powi d \<le> x then d else d - 1)"
    by (simp add: floor_log2_def pq d_def Let_def)
  show ?thesis
  proof (cases "2 powi d \<le> x")
    case True
    with fl hi show ?thesis by simp
  next
    case False
    with fl lo show ?thesis by simp
  qed
qed

lemma floor_log2_eq:
  assumes "(2 :: rat) powi e \<le> x" "x < 2 powi (e + 1)"
  shows "floor_log2 x = e"
proof -
  have "0 < (2 :: rat) powi e" by simp
  then have "0 < x" using assms(1) by (rule less_le_trans)
  from floor_log2_bounds [OF this] assms show ?thesis
    by (intro floor_log2_unique [of e x]) auto
qed

text \<open>
  The rounding of \<open>x\<close> with \<open>2\<^sup>e \<le> |x| < 2\<^sup>e\<^sup>+\<^sup>1\<close>: the integer \<open>m\<close> nearest to \<open>x\<close> in units of
  the spacing \<open>2\<^sup>q\<close>, \<open>q = max (e - 52) (-1074)\<close>, gives the double \<open>m * 2\<^sup>q\<close>.
\<close>

lemma fl_nearest:
  assumes "(2 :: rat) powi e \<le> \<bar>x\<bar>" "\<bar>x\<bar> < 2 powi (e + 1)"
    and "\<bar>x / 2 powi max (e - 52) (- 1074) - of_int m\<bar> < 1 / 2"
    and "\<bar>of_int m * (2 :: rat) powi max (e - 52) (- 1074)\<bar> < 2 ^ 1024"
  shows "fl x = Finite (of_int m * 2 powi max (e - 52) (- 1074))"
proof -
  have "0 < (2 :: rat) powi e" by simp
  then have "0 < \<bar>x\<bar>" using assms(1) by (rule less_le_trans)
  then have "x \<noteq> 0" by simp
  moreover have "floor_log2 \<bar>x\<bar> = e"
    by (rule floor_log2_eq [OF assms(1,2)])
  moreover have "round_half_even (x / 2 powi max (e - 52) (- 1074)) = m"
    by (rule round_half_even_nearest [OF assms(3)])
  ultimately show ?thesis
    using assms(4) by (simp add: fl_def Let_def del: power_int_numeral)
qed

lemma fl_zero: "fl 0 = Finite 0"
  by (simp add: fl_def)

text \<open>Integers round to themselves.\<close>

lemma round_half_even_numeral: "round_half_even (numeral n) = numeral n"
  using round_half_even_of_int [of "numeral n"] by simp

lemma round_half_even_zero: "round_half_even 0 = 0"
  using round_half_even_of_int [of 0] by simp

text \<open>The doubles of the literals \<^verbatim>\<open>0.5\<close>, \<^verbatim>\<open>0.20\<close>, \<^verbatim>\<open>0.05\<close>, \<^verbatim>\<open>0.9\<close> and \<^verbatim>\<open>1.1\<close>. Each
  value is certified by its exponent and its significand, as every rounding below.\<close>

lemma double_0_5: "fl (1 / 2) = Finite (1 / 2)"
  using fl_nearest [of "-1" "1 / 2" "4503599627370496"] by simp

lemma double_0_2: "fl (1 / 5) = Finite (3602879701896397 / 18014398509481984)"
  using fl_nearest [of "-3" "1 / 5" "7205759403792794"] by simp

lemma double_0_05: "fl (1 / 20) = Finite (3602879701896397 / 72057594037927936)"
  using fl_nearest [of "-5" "1 / 20" "7205759403792794"] by simp

lemma double_0_9: "fl (9 / 10) = Finite (8106479329266893 / 9007199254740992)"
  using fl_nearest [of "-1" "9 / 10" "8106479329266893"] by simp

lemma double_1_1: "fl (11 / 10) = Finite (2476979795053773 / 2251799813685248)"
  using fl_nearest [of "0" "11 / 10" "4953959590107546"] by simp

lemmas literal_doubles = double_0_5 double_0_2 double_0_05 double_0_9 double_1_1

lemmas pricing64_simps =
  ebind_def Let_def pricing_config_defs stairs_floors_def number_as_float_def
  volume_by_100_def is_integer_def fl_zero round_half_even_numeral round_half_even_zero
  literal_doubles

subsection \<open>The worked example in binary64 arithmetic\<close>

text \<open>The roundings of the worked example: every sum and product on the way, in both
  files, and 5 percent of the labor cost alone.\<close>

lemma example_roundings:
  "fl 8 = Finite 8"
  "fl 4 = Finite 4"
  "fl (3 / 2) = Finite (3 / 2)"
  "fl (19 / 2) = Finite (19 / 2)"
  "fl 3 = Finite 3"
  "fl (57 / 2) = Finite (57 / 2)"
  "fl (1995 / 2) = Finite (1995 / 2)"
  "fl 45 = Finite 45"
  "fl (45 / 2) = Finite (45 / 2)"
  "fl 800 = Finite 800"
  "fl (90071992547409925 / 562949953421312) = Finite 160"
  "fl 160 = Finite 160"
  "fl 50 = Finite 50"
  "fl (285 / 2) = Finite (285 / 2)"
  "fl 1140 = Finite 1140"
  "fl (1026820715040473145 / 18014398509481984) = Finite 57"
  "fl 57 = Finite 57"
  "fl 1190 = Finite 1190"
  "fl 1350 = Finite 1350"
  "fl 1407 = Finite 1407"
  "fl (11405816416278518451 / 9007199254740992) = Finite (5569246297010995 / 4398046511104)"
  "fl (12663 / 10) = Finite (5569246297010995 / 4398046511104)"
  "fl (3485110571640658611 / 2251799813685248) = Finite (6806856585235661 / 4398046511104)"
  "fl (15477 / 10) = Finite (6806856585235661 / 4398046511104)"
  "fl (2235 / 2) = Finite (2235 / 2)"
  "fl (7187745005283312015 / 144115188075855872) = Finite (399 / 8)"
  "fl (1247 / 25) = Finite (7019985919163761 / 140737488355328)"
  "round_half_even (139231157425274875 / 1099511627776) = 126630"
  "round_half_even (170171414630891525 / 1099511627776) = 154770"
  "round_half_even (9975 / 2) = 4988"
proof -
  show "fl 8 = Finite 8"
    using fl_nearest [of "3" "8" "4503599627370496"] by simp
  show "fl 4 = Finite 4"
    using fl_nearest [of "2" "4" "4503599627370496"] by simp
  show "fl (3 / 2) = Finite (3 / 2)"
    using fl_nearest [of "0" "3 / 2" "6755399441055744"] by simp
  show "fl (19 / 2) = Finite (19 / 2)"
    using fl_nearest [of "3" "19 / 2" "5348024557502464"] by simp
  show "fl 3 = Finite 3"
    using fl_nearest [of "1" "3" "6755399441055744"] by simp
  show "fl (57 / 2) = Finite (57 / 2)"
    using fl_nearest [of "4" "57 / 2" "8022036836253696"] by simp
  show "fl (1995 / 2) = Finite (1995 / 2)"
    using fl_nearest [of "9" "1995 / 2" "8774102789652480"] by simp
  show "fl 45 = Finite 45"
    using fl_nearest [of "5" "45" "6333186975989760"] by simp
  show "fl (45 / 2) = Finite (45 / 2)"
    using fl_nearest [of "4" "45 / 2" "6333186975989760"] by simp
  show "fl 800 = Finite 800"
    using fl_nearest [of "9" "800" "7036874417766400"] by simp
  show "fl (90071992547409925 / 562949953421312) = Finite 160"
    using fl_nearest [of "7" "90071992547409925 / 562949953421312" "5629499534213120"] by simp
  show "fl 160 = Finite 160"
    using fl_nearest [of "7" "160" "5629499534213120"] by simp
  show "fl 50 = Finite 50"
    using fl_nearest [of "5" "50" "7036874417766400"] by simp
  show "fl (285 / 2) = Finite (285 / 2)"
    using fl_nearest [of "7" "285 / 2" "5013773022658560"] by simp
  show "fl 1140 = Finite 1140"
    using fl_nearest [of "10" "1140" "5013773022658560"] by simp
  show "fl (1026820715040473145 / 18014398509481984) = Finite 57"
    using fl_nearest [of "5" "1026820715040473145 / 18014398509481984" "8022036836253696"] by simp
  show "fl 57 = Finite 57"
    using fl_nearest [of "5" "57" "8022036836253696"] by simp
  show "fl 1190 = Finite 1190"
    using fl_nearest [of "10" "1190" "5233675348213760"] by simp
  show "fl 1350 = Finite 1350"
    using fl_nearest [of "10" "1350" "5937362789990400"] by simp
  show "fl 1407 = Finite 1407"
    using fl_nearest [of "10" "1407" "6188051441123328"] by simp
  show "fl (11405816416278518451 / 9007199254740992) = Finite (5569246297010995 / 4398046511104)"
    using fl_nearest [of "10" "11405816416278518451 / 9007199254740992" "5569246297010995"] by simp
  show "fl (12663 / 10) = Finite (5569246297010995 / 4398046511104)"
    using fl_nearest [of "10" "12663 / 10" "5569246297010995"] by simp
  show "fl (3485110571640658611 / 2251799813685248) = Finite (6806856585235661 / 4398046511104)"
    using fl_nearest [of "10" "3485110571640658611 / 2251799813685248" "6806856585235661"] by simp
  show "fl (15477 / 10) = Finite (6806856585235661 / 4398046511104)"
    using fl_nearest [of "10" "15477 / 10" "6806856585235661"] by simp
  show "fl (2235 / 2) = Finite (2235 / 2)"
    using fl_nearest [of "10" "2235 / 2" "4914816976158720"] by simp
  show "fl (7187745005283312015 / 144115188075855872) = Finite (399 / 8)"
    using fl_nearest [of "5" "7187745005283312015 / 144115188075855872" "7019282231721984"] by simp
  show "fl (1247 / 25) = Finite (7019985919163761 / 140737488355328)"
    using fl_nearest [of "5" "1247 / 25" "7019985919163761"] by simp
  show "round_half_even (139231157425274875 / 1099511627776) = 126630"
    using round_half_even_nearest [of "139231157425274875 / 1099511627776" "126630"] by simp
  show "round_half_even (170171414630891525 / 1099511627776) = 154770"
    using round_half_even_nearest [of "170171414630891525 / 1099511627776" "154770"] by simp
  show "round_half_even (9975 / 2) = 4988"
    using round_half_even_tie [of "9975 / 2" "4987"] by simp
qed

text \<open>Both files return for the example the values that exact arithmetic gives; the
  range is the pair of doubles nearest to 1266.3 and 1547.7.\<close>

lemma example_move64:
  "pricing_move64 example_staffing example_inventory example_move
   = Inr \<lparr>total_cost64 = Finite 1407,
          cost_range64 = [Finite (5569246297010995 / 4398046511104),
                          Finite (6806856585235661 / 4398046511104)],
          movers_needed64 = JNum 3, truck_type64 = JStr ''medium'',
          estimated_hours64 = Finite (19 / 2),
          breakdown64 =
            \<lparr>labor64 = Finite (1995 / 2), truck64 = Finite 120, fuel64 = Finite (45 / 2),
             materials64 = Finite 160, stairs_fee64 = 50, other64 = Finite 57\<rparr>,
          special_notes64 = JStr ''Piano requires extra care and time''\<rparr>"
  by (simp add: pricing_move64_def example_staffing_def example_inventory_def
        example_move_def pricing64_simps example_roundings)

lemma example_main64:
  "pricing_main64 example_staffing example_inventory example_move
   = Inr \<lparr>total_cost64 = Finite 1407,
          cost_range64 = [Finite (5569246297010995 / 4398046511104),
                          Finite (6806856585235661 / 4398046511104)],
          movers_needed64 = JNum 3, truck_type64 = JStr ''medium'',
          estimated_hours64 = Finite (19 / 2),
          breakdown64 =
            \<lparr>labor64 = Finite (1995 / 2), truck64 = Finite 120, fuel64 = Finite (45 / 2),
             materials64 = Finite 160, stairs_fee64 = 50, other64 = Finite 57\<rparr>,
          special_notes64 = JStr ''Piano requires extra care and time''\<rparr>"
  by (simp add: pricing_main64_def example_staffing_def example_inventory_def
        example_move_def pricing64_simps example_roundings)

subsection \<open>The input of large magnitude\<close>

text \<open>The roundings at \<open>10\<^sup>1\<^sup>5\<close> movers. The labor cost plus 202.5 is rounded up to a
  multiple of 16; the labor cost plus 180 is rounded down, and so is that sum plus
  22.5.\<close>

lemma crowd_roundings:
  "fl 4 = Finite 4"
  "fl 1000000000000000 = Finite 1000000000000000"
  "fl 4000000000000000 = Finite 4000000000000000"
  "fl 140000000000000000 = Finite 140000000000000000"
  "fl 45 = Finite 45"
  "fl (45 / 2) = Finite (45 / 2)"
  "fl (405 / 2) = Finite (405 / 2)"
  "fl (280000000000000405 / 2) = Finite 140000000000000208"
  "fl (31525197391593520587436124653161 / 4503599627370496) = Finite 7000000000000011"
  "fl 7000000000000011 = Finite 7000000000000011"
  "fl 140000000000000208 = Finite 140000000000000208"
  "fl 147000000000000219 = Finite 147000000000000224"
  "fl 147000000000000224 = Finite 147000000000000224"
  "fl (37239139418819846464105304868251 / 281474976710656) = Finite 132300000000000208"
  "fl 132300000000000208 = Finite 132300000000000208"
  "fl (11378625933528287057608565376411 / 70368744177664) = Finite 161700000000000256"
  "fl 161700000000000256 = Finite 161700000000000256"
  "fl 140000000000000180 = Finite 140000000000000176"
  "fl (280000000000000397 / 2) = Finite 140000000000000192"
  "fl (7881299347898379246139105689191 / 1125899906842624) = Finite 7000000000000010"
  "fl 7000000000000010 = Finite 7000000000000010"
  "fl 140000000000000192 = Finite 140000000000000192"
  "fl 147000000000000202 = Finite 147000000000000192"
  "fl 147000000000000192 = Finite 147000000000000192"
  "fl (18619569709409919178812987800679 / 140737488355328) = Finite 132300000000000176"
  "fl 132300000000000176 = Finite 132300000000000176"
  "fl (5689312966764142290314385161319 / 35184372088832) = Finite 161700000000000224"
  "fl 161700000000000224 = Finite 161700000000000224"
  "fl 147000000000000203 = Finite 147000000000000192"
proof -
  show "fl 4 = Finite 4"
    using fl_nearest [of "2" "4" "4503599627370496"] by simp
  show "fl 1000000000000000 = Finite 1000000000000000"
    using fl_nearest [of "49" "1000000000000000" "8000000000000000"] by simp
  show "fl 4000000000000000 = Finite 4000000000000000"
    using fl_nearest [of "51" "4000000000000000" "8000000000000000"] by simp
  show "fl 140000000000000000 = Finite 140000000000000000"
    using fl_nearest [of "56" "140000000000000000" "8750000000000000"] by simp
  show "fl 45 = Finite 45"
    using fl_nearest [of "5" "45" "6333186975989760"] by simp
  show "fl (45 / 2) = Finite (45 / 2)"
    using fl_nearest [of "4" "45 / 2" "6333186975989760"] by simp
  show "fl (405 / 2) = Finite (405 / 2)"
    using fl_nearest [of "7" "405 / 2" "7124835347988480"] by simp
  show "fl (280000000000000405 / 2) = Finite 140000000000000208"
    using fl_nearest [of "56" "280000000000000405 / 2" "8750000000000013"] by simp
  show "fl (31525197391593520587436124653161 / 4503599627370496) = Finite 7000000000000011"
    using fl_nearest [of "52" "31525197391593520587436124653161 / 4503599627370496" "7000000000000011"] by simp
  show "fl 7000000000000011 = Finite 7000000000000011"
    using fl_nearest [of "52" "7000000000000011" "7000000000000011"] by simp
  show "fl 140000000000000208 = Finite 140000000000000208"
    using fl_nearest [of "56" "140000000000000208" "8750000000000013"] by simp
  show "fl 147000000000000219 = Finite 147000000000000224"
    using fl_nearest [of "57" "147000000000000219" "4593750000000007"] by simp
  show "fl 147000000000000224 = Finite 147000000000000224"
    using fl_nearest [of "57" "147000000000000224" "4593750000000007"] by simp
  show "fl (37239139418819846464105304868251 / 281474976710656) = Finite 132300000000000208"
    using fl_nearest [of "56" "37239139418819846464105304868251 / 281474976710656" "8268750000000013"] by simp
  show "fl 132300000000000208 = Finite 132300000000000208"
    using fl_nearest [of "56" "132300000000000208" "8268750000000013"] by simp
  show "fl (11378625933528287057608565376411 / 70368744177664) = Finite 161700000000000256"
    using fl_nearest [of "57" "11378625933528287057608565376411 / 70368744177664" "5053125000000008"] by simp
  show "fl 161700000000000256 = Finite 161700000000000256"
    using fl_nearest [of "57" "161700000000000256" "5053125000000008"] by simp
  show "fl 140000000000000180 = Finite 140000000000000176"
    using fl_nearest [of "56" "140000000000000180" "8750000000000011"] by simp
  show "fl (280000000000000397 / 2) = Finite 140000000000000192"
    using fl_nearest [of "56" "280000000000000397 / 2" "8750000000000012"] by simp
  show "fl (7881299347898379246139105689191 / 1125899906842624) = Finite 7000000000000010"
    using fl_nearest [of "52" "7881299347898379246139105689191 / 1125899906842624" "7000000000000010"] by simp
  show "fl 7000000000000010 = Finite 7000000000000010"
    using fl_nearest [of "52" "7000000000000010" "7000000000000010"] by simp
  show "fl 140000000000000192 = Finite 140000000000000192"
    using fl_nearest [of "56" "140000000000000192" "8750000000000012"] by simp
  show "fl 147000000000000202 = Finite 147000000000000192"
    using fl_nearest [of "57" "147000000000000202" "4593750000000006"] by simp
  show "fl 147000000000000192 = Finite 147000000000000192"
    using fl_nearest [of "57" "147000000000000192" "4593750000000006"] by simp
  show "fl (18619569709409919178812987800679 / 140737488355328) = Finite 132300000000000176"
    using fl_nearest [of "56" "18619569709409919178812987800679 / 140737488355328" "8268750000000011"] by simp
  show "fl 132300000000000176 = Finite 132300000000000176"
    using fl_nearest [of "56" "132300000000000176" "8268750000000011"] by simp
  show "fl (5689312966764142290314385161319 / 35184372088832) = Finite 161700000000000224"
    using fl_nearest [of "57" "5689312966764142290314385161319 / 35184372088832" "5053125000000007"] by simp
  show "fl 161700000000000224 = Finite 161700000000000224"
    using fl_nearest [of "57" "161700000000000224" "5053125000000007"] by simp
  show "fl 147000000000000203 = Finite 147000000000000192"
    using fl_nearest [of "57" "147000000000000203" "4593750000000006"] by simp
qed

lemma many_movers_move64:
  "pricing_move64 many_movers empty_inventory ground_floor_move
   = Inr \<lparr>total_cost64 = Finite 147000000000000192,
          cost_range64 = [Finite 132300000000000176, Finite 161700000000000224],
          movers_needed64 = JNum 1000000000000000, truck_type64 = JStr ''large'',
          estimated_hours64 = Finite 4,
          breakdown64 =
            \<lparr>labor64 = Finite 140000000000000000, truck64 = Finite 180,
             fuel64 = Finite (45 / 2), materials64 = Finite 0, stairs_fee64 = 0,
             other64 = Finite 7000000000000010\<rparr>,
          special_notes64 = JStr []\<rparr>"
  by (simp add: pricing_move64_def many_movers_def empty_inventory_def
        ground_floor_move_def pricing64_simps crowd_roundings)

lemma many_movers_main64:
  "pricing_main64 many_movers empty_inventory ground_floor_move
   = Inr \<lparr>total_cost64 = Finite 147000000000000224,
          cost_range64 = [Finite 132300000000000208, Finite 161700000000000256],
          movers_needed64 = JNum 1000000000000000, truck_type64 = JStr ''large'',
          estimated_hours64 = Finite 4,
          breakdown64 =
            \<lparr>labor64 = Finite 140000000000000000, truck64 = Finite 180,
             fuel64 = Finite (45 / 2), materials64 = Finite 0, stairs_fee64 = 0,
             other64 = Finite 7000000000000011\<rparr>,
          special_notes64 = JStr []\<rparr>"
  by (simp add: pricing_main64_def many_movers_def empty_inventory_def
        ground_floor_move_def pricing64_simps crowd_roundings)

subsection \<open>Total, range and other fees of every estimate\<close>

lemma pricing_move64_total:
  assumes "pricing_move64 ai iv m = Inr e"
  shows "invariant_total (breakdown64 e) = Inr (total_cost64 e)"
  using assms unfolding pricing_move64_def invariant_total_def Let_def ebind_Inr_iff
  by auto

lemma pricing_main64_total:
  assumes "pricing_main64 ai iv m = Inr e"
  shows "total_with_truck_total (breakdown64 e) = Inr (total_cost64 e)"
  using assms unfolding pricing_main64_def total_with_truck_total_def Let_def ebind_Inr_iff
  by auto

lemma pricing_move64_range:
  assumes "pricing_move64 ai iv m = Inr e"
  shows "cost_range64 e = invariant_range (total_cost64 e)"
  using assms unfolding pricing_move64_def invariant_range_def Let_def ebind_Inr_iff
  by auto

lemma pricing_main64_range:
  assumes "pricing_main64 ai iv m = Inr e"
  shows "cost_range64 e = invariant_range (total_cost64 e)"
  using assms unfolding pricing_main64_def invariant_range_def Let_def ebind_Inr_iff
  by auto

lemma pricing_move64_other:
  assumes "pricing_move64 ai iv m = Inr e"
  shows "other64 (breakdown64 e) = other_fees_left_to_right (breakdown64 e)"
  using assms unfolding pricing_move64_def other_fees_left_to_right_def Let_def ebind_Inr_iff
  by auto

lemma pricing_main64_other:
  assumes "pricing_main64 ai iv m = Inr e"
  shows "other64 (breakdown64 e) = other_fees_with_truck_total (breakdown64 e)"
  using assms unfolding pricing_main64_def other_fees_with_truck_total_def Let_def
    ebind_Inr_iff
  by auto

text \<open>
  Claim C1, as the code has it. Every estimate that the pricing of \<^verbatim>\<open>move.py\<close> returns has
  a total equal to the rounded sum of the six components of its own breakdown, added from
  left to right as the specification writes the sum. Every estimate that the pricing of
  \<^verbatim>\<open>main.py\<close> returns has a total equal to the rounded sum in which the truck rate and the
  fuel are added up first. In both files the cost range is 0.9 and 1.1 times the total,
  each rounded to two decimals.
\<close>

theorem C1_total_and_range_binary64:
  "(pricing_move64 ai iv m = Inr e \<longrightarrow>
      invariant_total (breakdown64 e) = Inr (total_cost64 e)
      \<and> cost_range64 e = invariant_range (total_cost64 e))
   \<and> (pricing_main64 ai iv m = Inr e' \<longrightarrow>
      total_with_truck_total (breakdown64 e') = Inr (total_cost64 e')
      \<and> cost_range64 e' = invariant_range (total_cost64 e'))"
proof (intro conjI impI)
  assume priced: "pricing_move64 ai iv m = Inr e"
  show "invariant_total (breakdown64 e) = Inr (total_cost64 e)"
    by (rule pricing_move64_total [OF priced])
  show "cost_range64 e = invariant_range (total_cost64 e)"
    by (rule pricing_move64_range [OF priced])
next
  assume priced: "pricing_main64 ai iv m = Inr e'"
  show "total_with_truck_total (breakdown64 e') = Inr (total_cost64 e')"
    by (rule pricing_main64_total [OF priced])
  show "cost_range64 e' = invariant_range (total_cost64 e')"
    by (rule pricing_main64_range [OF priced])
qed

text \<open>The worked example: both files return the total 1407, which is the rounded sum of
  997.5, 120, 22.5, 50, 160 and 57 in either grouping.\<close>

theorem C1_total_and_range_binary64_witness:
  "(\<exists>e. pricing_move64 example_staffing example_inventory example_move = Inr e
        \<and> total_cost64 e = Finite 1407
        \<and> invariant_total (breakdown64 e) = Inr (total_cost64 e)
        \<and> cost_range64 e = invariant_range (total_cost64 e))
   \<and> (\<exists>e'. pricing_main64 example_staffing example_inventory example_move = Inr e'
        \<and> total_cost64 e' = Finite 1407
        \<and> total_with_truck_total (breakdown64 e') = Inr (total_cost64 e')
        \<and> cost_range64 e' = invariant_range (total_cost64 e'))"
proof -
  let ?e = "\<lparr>total_cost64 = Finite 1407,
          cost_range64 = [Finite (5569246297010995 / 4398046511104),
                          Finite (6806856585235661 / 4398046511104)],
          movers_needed64 = JNum 3, truck_type64 = JStr ''medium'',
          estimated_hours64 = Finite (19 / 2),
          breakdown64 =
            \<lparr>labor64 = Finite (1995 / 2), truck64 = Finite 120, fuel64 = Finite (45 / 2),
             materials64 = Finite 160, stairs_fee64 = 50, other64 = Finite 57\<rparr>,
          special_notes64 = JStr ''Piano requires extra care and time''\<rparr>"
  note c1 = C1_total_and_range_binary64
      [of example_staffing example_inventory example_move ?e ?e]
  have move: "pricing_move64 example_staffing example_inventory example_move = Inr ?e"
    by (rule example_move64)
  have main: "pricing_main64 example_staffing example_inventory example_move = Inr ?e"
    by (rule example_main64)
  have total: "total_cost64 ?e = Finite 1407"
    by simp
  from c1 move have "invariant_total (breakdown64 ?e) = Inr (total_cost64 ?e)
      \<and> cost_range64 ?e = invariant_range (total_cost64 ?e)"
    by blast
  moreover from c1 main have "total_with_truck_total (breakdown64 ?e) = Inr (total_cost64 ?e)
      \<and> cost_range64 ?e = invariant_range (total_cost64 ?e)"
    by blast
  ultimately show ?thesis
    using move main total by blast
qed

text \<open>
  C1 states the sum from left to right for both files. In \<^verbatim>\<open>main.py\<close> it fails: for
  \<open>10\<^sup>1\<^sup>5\<close> movers the function returns the total 147000000000000224, and the rounded sum
  of the components of the breakdown it returns with it, added from left to right, is
  147000000000000192.
\<close>

theorem C1_sum_left_to_right_counterexample:
  "\<exists>e. pricing_main64 many_movers empty_inventory ground_floor_move = Inr e
       \<and> total_cost64 e = Finite 147000000000000224
       \<and> invariant_total (breakdown64 e) = Inr (Finite 147000000000000192)"
  by (simp add: many_movers_main64 invariant_total_def pricing64_simps crowd_roundings)

text \<open>
  Claim C9, as the code has it. Both files take 5 percent of labor, truck rate and fuel:
  \<^verbatim>\<open>move.py\<close> adds the three from left to right, \<^verbatim>\<open>main.py\<close> adds the truck rate and the
  fuel first. Neither leaves the truck rate and the fuel out. The two sums are rounded
  differently, and there are inputs for which the two files return different other fees.
\<close>

theorem C9_other_fees_grouping:
  "(pricing_move64 ai iv m = Inr e \<longrightarrow>
      other64 (breakdown64 e) = other_fees_left_to_right (breakdown64 e))
   \<and> (pricing_main64 ai iv m = Inr e' \<longrightarrow>
      other64 (breakdown64 e') = other_fees_with_truck_total (breakdown64 e'))
   \<and> (\<exists>ai' iv' m' e1 e2.
        pricing_main64 ai' iv' m' = Inr e1 \<and> pricing_move64 ai' iv' m' = Inr e2
        \<and> other64 (breakdown64 e1) \<noteq> other64 (breakdown64 e2))"
proof (intro conjI impI)
  assume "pricing_move64 ai iv m = Inr e"
  then show "other64 (breakdown64 e) = other_fees_left_to_right (breakdown64 e)"
    by (rule pricing_move64_other)
next
  assume "pricing_main64 ai iv m = Inr e'"
  then show "other64 (breakdown64 e') = other_fees_with_truck_total (breakdown64 e')"
    by (rule pricing_main64_other)
next
  show "\<exists>ai' iv' m' e1 e2.
        pricing_main64 ai' iv' m' = Inr e1 \<and> pricing_move64 ai' iv' m' = Inr e2
        \<and> other64 (breakdown64 e1) \<noteq> other64 (breakdown64 e2)"
    by (intro exI conjI, rule many_movers_main64, rule many_movers_move64) simp
qed

text \<open>For \<open>10\<^sup>1\<^sup>5\<close> movers, \<^verbatim>\<open>main.py\<close> returns other fees of 7000000000000011 and
  \<^verbatim>\<open>move.py\<close> of 7000000000000010, each by its own grouping.\<close>

theorem C9_other_fees_grouping_witness:
  "\<exists>e1 e2. pricing_main64 many_movers empty_inventory ground_floor_move = Inr e1
       \<and> pricing_move64 many_movers empty_inventory ground_floor_move = Inr e2
       \<and> other64 (breakdown64 e1) = other_fees_with_truck_total (breakdown64 e1)
       \<and> other64 (breakdown64 e2) = other_fees_left_to_right (breakdown64 e2)
       \<and> other64 (breakdown64 e1) = Finite 7000000000000011
       \<and> other64 (breakdown64 e2) = Finite 7000000000000010"
proof -
  let ?e1 = "\<lparr>total_cost64 = Finite 147000000000000224,
          cost_range64 = [Finite 132300000000000208, Finite 161700000000000256],
          movers_needed64 = JNum 1000000000000000, truck_type64 = JStr ''large'',
          estimated_hours64 = Finite 4,
          breakdown64 =
            \<lparr>labor64 = Finite 140000000000000000, truck64 = Finite 180,
             fuel64 = Finite (45 / 2), materials64 = Finite 0, stairs_fee64 = 0,
             other64 = Finite 7000000000000011\<rparr>,
          special_notes64 = JStr []\<rparr>"
  let ?e2 = "\<lparr>total_cost64 = Finite 147000000000000192,
          cost_range64 = [Finite 132300000000000176, Finite 161700000000000224],
          movers_needed64 = JNum 1000000000000000, truck_type64 = JStr ''large'',
          estimated_hours64 = Finite 4,
          breakdown64 =
            \<lparr>labor64 = Finite 140000000000000000, truck64 = Finite 180,
             fuel64 = Finite (45 / 2), materials64 = Finite 0, stairs_fee64 = 0,
             other64 = Finite 7000000000000010\<rparr>,
          special_notes64 = JStr []\<rparr>"
  note c9 = C9_other_fees_grouping
      [of many_movers empty_inventory ground_floor_move ?e2 ?e1]
  have main: "pricing_main64 many_movers empty_inventory ground_floor_move = Inr ?e1"
    by (rule many_movers_main64)
  have move: "pricing_move64 many_movers empty_inventory ground_floor_move = Inr ?e2"
    by (rule many_movers_move64)
  from c9 main have "other64 (breakdown64 ?e1) = other_fees_with_truck_total (breakdown64 ?e1)"
    by blast
  moreover from c9 move have "other64 (breakdown64 ?e2) = other_fees_left_to_right (breakdown64 ?e2)"
    by blast
  moreover have "other64 (breakdown64 ?e1) = Finite 7000000000000011"
    and "other64 (breakdown64 ?e2) = Finite 7000000000000010"
    by simp_all
  ultimately show ?thesis
    using main move by blast
qed

text \<open>
  C9 states that one of the two files leaves the truck rate and the fuel out of the base
  of the 5 percent. Neither does: for the worked example both return other fees of 57,
  which is 5 percent of 997.5 + 120 + 22.5, and 5 percent of the labor cost alone would
  be 49.88.
\<close>

theorem C9_omits_truck_and_fuel_counterexample:
  "\<exists>e1 e2. pricing_main64 example_staffing example_inventory example_move = Inr e1
       \<and> pricing_move64 example_staffing example_inventory example_move = Inr e2
       \<and> other64 (breakdown64 e1) = Finite 57
       \<and> other64 (breakdown64 e2) = Finite 57
       \<and> other_fees_of_labor_only (breakdown64 e1) = fl (4988 / 100)
       \<and> other_fees_of_labor_only (breakdown64 e2) = fl (4988 / 100)
       \<and> fl (4988 / 100) \<noteq> Finite 57"
  by (simp add: example_main64 example_move64 other_fees_of_labor_only_def
        pricing64_simps example_roundings)

end
